theory Spec2Isabelle
  imports Main
begin

section \<open>Python values: \<open>int()\<close>, \<open>str()\<close> and f-string formatting\<close>

text \<open>
  The exceptions the modelled paths of \<^verbatim>\<open>TextArea.py\<close> can raise: \<open>int()\<close> on text that is
  not an integer literal (\<open>ValueError\<close>), \<open>int()\<close> on a value that is no number or string
  (\<open>TypeError\<close>), and reading an attribute that has not been set yet (\<open>AttributeError\<close>).
\<close>

datatype error = ValueError | TypeError | AttributeError

text \<open>The Python values the program hands to \<open>QSettings.setValue\<close> and to \<open>int()\<close>.\<close>

datatype pyval = PyNone | PyStr string | PyInt int | PyBool bool | PyBytes string

definition is_digit :: "char \<Rightarrow> bool" where
  "is_digit c \<longleftrightarrow> (48::nat) \<le> of_char c \<and> of_char c \<le> (57::nat)"

definition digit_of_char :: "char \<Rightarrow> nat" where
  "digit_of_char c = of_char c - 48"

definition char_of_digit :: "nat \<Rightarrow> char" where
  "char_of_digit d = char_of (48 + d)"

text \<open>
  A character of a \<open>string\<close> is a code point below 256. \<open>int()\<close> on a \<open>str\<close> first turns
  every white-space character that is not ASCII into a space, then skips ASCII white space
  on both sides of the literal. Of the code points below 256 it so skips the space, the
  controls \<open>\t \n \v \f \r\<close>, and \<open>U+0085\<close> and \<open>U+00A0\<close>; the separators \<open>0x1c .. 0x1f\<close>,
  which \<open>str.strip()\<close> drops, \<open>int()\<close> does not skip. The decimal digits below 256 are
  \<open>0 .. 9\<close> alone.
\<close>

definition is_space :: "char \<Rightarrow> bool" where
  "is_space c \<longleftrightarrow>
     (let n = (of_char c :: nat) in n = 32 \<or> (9 \<le> n \<and> n \<le> 13) \<or> n = 133 \<or> n = 160)"

definition int_strip :: "string \<Rightarrow> string" where
  "int_strip s = rev (dropWhile is_space (rev (dropWhile is_space s)))"

text \<open>
  The digits of a decimal literal after its first digit: a single underscore may
  stand between two digits, nothing else is accepted.
\<close>

fun digits_value :: "nat \<Rightarrow> string \<Rightarrow> nat option" where
  "digits_value acc [] = Some acc"
| "digits_value acc (c # cs) =
     (if is_digit c then digits_value (10 * acc + digit_of_char c) cs
      else if c = CHR ''_'' then
        (case cs of
           [] \<Rightarrow> None
         | d # ds \<Rightarrow> if is_digit d then digits_value (10 * acc + digit_of_char d) ds else None)
      else None)"

definition unsigned_value :: "string \<Rightarrow> nat option" where
  "unsigned_value s =
     (case s of
        [] \<Rightarrow> None
      | c # cs \<Rightarrow> if is_digit c then digits_value (digit_of_char c) cs else None)"

text \<open>
  \<open>int(s)\<close> for a string in base 10: surrounding white space is dropped, one sign is
  allowed, the rest must be a decimal literal. (CPython's configurable cap on the number
  of digits, \<open>sys.set_int_max_str_digits\<close>, is an interpreter setting and is left out.)
\<close>

definition py_int_str :: "string \<Rightarrow> error + int" where
  "py_int_str s =
     (let t = int_strip s;
          neg = (case t of [] \<Rightarrow> False | c # _ \<Rightarrow> c = CHR ''-'');
          body = (case t of [] \<Rightarrow> [] | c # cs \<Rightarrow> if c = CHR ''-'' \<or> c = CHR ''+'' then cs else t)
      in case unsigned_value body of
           None \<Rightarrow> Inl ValueError
         | Some n \<Rightarrow> Inr (if neg then - int n else int n))"

fun py_int :: "pyval \<Rightarrow> error + int" where
  "py_int (PyInt i) = Inr i"
| "py_int (PyBool b) = Inr (if b then 1 else 0)"
| "py_int (PyStr s) = py_int_str s"
| "py_int (PyBytes b) =
     (if list_all (\<lambda>c. (of_char c :: nat) < 128) b then py_int_str b else Inl ValueError)"
| "py_int PyNone = Inl TypeError"

text \<open>\<open>str(n)\<close> for an integer, as f-strings and the settings store print it.\<close>

fun show_nat :: "nat \<Rightarrow> string" where
  "show_nat n = (if n < 10 then [char_of_digit n] else show_nat (n div 10) @ [char_of_digit (n mod 10)])"

declare show_nat.simps [simp del]

definition show_int :: "int \<Rightarrow> string" where
  "show_int i = (if i < 0 then CHR ''-'' # show_nat (nat (- i)) else show_nat (nat i))"

definition show_bool :: "bool \<Rightarrow> string" where
  "show_bool b = (if b then ''True'' else ''False'')"

section \<open>The settings store\<close>

text \<open>
  \<open>QSettings("TextArea", "Settings")\<close> is the per-user store of the Qt library; each
  \<open>QSettings\<close> object the program creates opens the same store, so the store is one value
  threaded through the calls. A key holds text: what a fresh process reads back is the
  stored text (or the caller's default for an absent key), and byte-array blobs are byte
  strings.
\<close>

type_synonym qsettings = "string \<Rightarrow> string option"

text \<open>
  Modelled from the spec: the encoding \<open>QSettings.setValue\<close> gives a value in the store
  is not in the repository (it is the Qt library's). The spec's section 6 fixes it:
  strings and blobs are kept as they are, an integer is its decimal text, and
  \<^emph>\<open>boolean fields are stored as the literal strings "true"/"false"\<close>. Setting a key to
  \<open>None\<close> leaves nothing to read back: \<open>value(key)\<close> is \<open>None\<close> again, as for an absent key.
\<close>

fun variant_to_string :: "pyval \<Rightarrow> string option" where
  "variant_to_string PyNone = None"
| "variant_to_string (PyStr s) = Some s"
| "variant_to_string (PyInt i) = Some (show_int i)"
| "variant_to_string (PyBool b) = Some (if b then ''true'' else ''false'')"
| "variant_to_string (PyBytes b) = Some b"

definition setValue :: "qsettings \<Rightarrow> string \<Rightarrow> pyval \<Rightarrow> qsettings" where
  "setValue st key v = st(key := variant_to_string v)"

text \<open>
  \<open>settings.value(key, default)\<close>: the stored text, or the default when the key is
  absent. \<open>QSettings_value_str\<close> is the same lookup at the type of a string default;
  \<open>settings.value(key)\<close> without a default is the lookup \<open>st key\<close> itself.
\<close>

definition QSettings_value :: "qsettings \<Rightarrow> string \<Rightarrow> pyval \<Rightarrow> pyval" where
  "QSettings_value st key dflt = (case st key of None \<Rightarrow> dflt | Some v \<Rightarrow> PyStr v)"

definition QSettings_value_str :: "qsettings \<Rightarrow> string \<Rightarrow> string \<Rightarrow> string" where
  "QSettings_value_str st key dflt = (case st key of None \<Rightarrow> dflt | Some v \<Rightarrow> v)"

section \<open>The window and its widgets\<close>

text \<open>
  The style sheets are the string literals of the source, named by the place they dress:
  \<open>DarkWindowStyle\<close> is the literal of lines 213-286, \<open>LightWindowStyle\<close> that of lines
  301-375; \<open>DarkConsoleStyle\<close> is the literal of lines 76, 97, 290 and 666 (the same text
  at all four places) and \<open>LightConsoleStyle\<close> that of lines 86, 379 and 676.
  \<open>NoStyle\<close> is a widget no style sheet has been set on.
\<close>

datatype style_sheet =
  NoStyle | DarkWindowStyle | LightWindowStyle | DarkConsoleStyle | LightConsoleStyle

text \<open>
  The debug console (\<open>QPlainTextEdit\<close>): its style sheet and the lines appended to it.
  A line is kept without its time stamp, which is the wall clock's.
\<close>

record plain_text_edit =
  pte_style :: style_sheet
  pte_lines :: "string list"

record dock_widget =
  dock_visible :: bool

text \<open>A \<open>QFont\<close>: family, point size, and the weight when \<open>setWeight\<close> was called.\<close>

record qfont =
  family :: string
  point_size :: int
  weight :: "int option"

record text_edit =
  plain_text :: string
  te_font :: "qfont option"

datatype window_geometry =
  UnsetGeometry | Rect int int int int | RestoredGeometry string

datatype icon = IconFile string | StandardDesktopIcon

text \<open>
  \<open>TextAreaApp\<close>. An attribute that \<open>__init__\<close> does not set before it can be read is an
  option: \<open>font_weight\<close> and \<open>settings_dialog_geometry\<close> (tested with \<open>hasattr\<close>) and
  \<open>text_area\<close> (created by \<open>setup_ui\<close>). \<open>settings_dialog_geometry\<close> is \<open>None\<close> while the
  attribute is missing, \<open>Some None\<close> when it holds Python's \<open>None\<close>.
\<close>

record app =
  debug_console :: "plain_text_edit option"
  debug_dock :: "dock_widget option"
  font_name :: string
  font_size :: int
  font_weight :: "int option"
  theme_mode :: string
  text_content :: string
  show_debug :: bool
  always_on_top :: bool
  settings_dialog_geometry :: "string option option"
  text_area :: "text_edit option"
  style_sheet :: style_sheet
  geometry :: window_geometry
  window_state :: "string option"
  window_icon :: "icon option"
  stays_on_top_hint :: bool
  shown :: bool

definition log_debug :: "app \<Rightarrow> string \<Rightarrow> app" where
  "log_debug s message =
     (if \<not> show_debug s then s
      else case debug_console s of
             None \<Rightarrow> s
           | Some c \<Rightarrow> s\<lparr>debug_console := Some (c\<lparr>pte_lines := pte_lines c @ [message]\<rparr>)\<rparr>)"

text \<open>\<open>if self.debug_console: self.debug_console.setStyleSheet(...)\<close>\<close>

definition set_console_style :: "app \<Rightarrow> style_sheet \<Rightarrow> app" where
  "set_console_style s sheet =
     (case debug_console s of
        None \<Rightarrow> s
      | Some c \<Rightarrow> s\<lparr>debug_console := Some (c\<lparr>pte_style := sheet\<rparr>)\<rparr>)"

definition quote :: string where
  "quote = [char_of (39::nat)]"

section \<open>\<open>apply_theme\<close>\<close>

text \<open>
  \<open>apply_theme(theme=None)\<close>, lines 207-392. The second component of the result is not
  in the source: it counts how often the \<open>else\<close> branch of line 388 ran, that is, how many
  times an unknown theme was replaced by \<open>"Dark"\<close> (line 391) before the recursive call
  of line 392.
\<close>

function apply_theme_count :: "app \<Rightarrow> string option \<Rightarrow> app \<times> nat" where
  "apply_theme_count s theme =
     (let s1 = (case theme of
                  None \<Rightarrow> s
                | Some t \<Rightarrow> log_debug (s\<lparr>theme_mode := t\<rparr>) (''Theme Changed To: '' @ t))
      in if theme_mode s1 = ''Dark'' then
           (set_console_style (s1\<lparr>style_sheet := DarkWindowStyle\<rparr>) DarkConsoleStyle, 0)
         else if theme_mode s1 = ''Light'' then
           (set_console_style (s1\<lparr>style_sheet := LightWindowStyle\<rparr>) LightConsoleStyle, 0)
         else
           (let s2 = log_debug s1
                       (''Unknown Theme '' @ quote @ theme_mode s1 @ quote @
                        '' set, Defaulting To Dark Theme'');
                r = apply_theme_count (s2\<lparr>theme_mode := ''Dark''\<rparr>) None
            in (fst r, Suc (snd r))))"
  by pat_completeness auto

termination apply_theme_count
proof (relation "measure (\<lambda>(s, theme).
          if (case theme of None \<Rightarrow> theme_mode s | Some t \<Rightarrow> t) \<in> {''Dark'', ''Light''}
          then 0 else 1)")
  show "wf (measure (\<lambda>(s, theme).
          if (case theme of None \<Rightarrow> theme_mode s | Some t \<Rightarrow> t) \<in> {''Dark'', ''Light''}
          then 0 else (1::nat)))"
    by simp
next
  fix s :: app and theme :: "string option" and x xa
  assume "x = (case theme of None \<Rightarrow> s
                | Some t \<Rightarrow> log_debug (s\<lparr>theme_mode := t\<rparr>) (''Theme Changed To: '' @ t))"
    and "theme_mode x \<noteq> ''Dark''" and "theme_mode x \<noteq> ''Light''"
    and "xa = log_debug x (''Unknown Theme '' @ quote @ theme_mode x @ quote @
                        '' set, Defaulting To Dark Theme'')"
  then show "((xa\<lparr>theme_mode := ''Dark''\<rparr>, None), s, theme)
       \<in> measure (\<lambda>(s, theme).
          if (case theme of None \<Rightarrow> theme_mode s | Some t \<Rightarrow> t) \<in> {''Dark'', ''Light''}
          then 0 else 1)"
  proof -
    assume x: "x = (case theme of None \<Rightarrow> s
                | Some t \<Rightarrow> log_debug (s\<lparr>theme_mode := t\<rparr>) (''Theme Changed To: '' @ t))"
      and nd: "theme_mode x \<noteq> ''Dark''" and nl: "theme_mode x \<noteq> ''Light''"
    have keep: "theme_mode (log_debug a m) = theme_mode a" for a m
      by (simp add: log_debug_def split: option.splits)
    have "(case theme of None \<Rightarrow> theme_mode s | Some t \<Rightarrow> t) = theme_mode x"
      using x by (cases theme) (simp_all add: keep)
    with nd nl show ?thesis by simp
  qed
qed

declare apply_theme_count.simps [simp del]

definition apply_theme :: "app \<Rightarrow> string option \<Rightarrow> app" where
  "apply_theme s theme = fst (apply_theme_count s theme)"


section \<open>The debug console, the icon, the widgets\<close>

text \<open>
  \<open>_init_debug_console\<close>, lines 68-116: a new console replaces the old one, is dressed
  for the current theme and put in a dock. The Qt calls inside the \<open>try\<close> do not raise.
\<close>

definition init_debug_console :: "app \<Rightarrow> app" where
  "init_debug_console s =
     (let s1 = s\<lparr>debug_console := Some \<lparr>pte_style = NoStyle, pte_lines = []\<rparr>\<rparr>;
          s2 = (if theme_mode s1 = ''Dark'' then set_console_style s1 DarkConsoleStyle
                else if theme_mode s1 = ''Light'' then set_console_style s1 LightConsoleStyle
                else set_console_style
                       (log_debug s1 (''Unknown Theme '' @ quote @ theme_mode s1 @ quote @
                                      '' Set, Defaulting To Dark Theme - Console''))
                       DarkConsoleStyle)
      in s2\<lparr>debug_dock := Some \<lparr>dock_visible = show_debug s2\<rparr>\<rparr>)"

text \<open>
  \<open>_set_window_icon\<close>, lines 136-157. \<open>icon_file\<close> is the first of the four candidate
  paths that exists on disk, if any (the file system is the caller's).
\<close>

definition set_window_icon :: "app \<Rightarrow> string option \<Rightarrow> app" where
  "set_window_icon s icon_file =
     (case icon_file of
        Some path \<Rightarrow> log_debug (s\<lparr>window_icon := Some (IconFile path)\<rparr>) (''Icon loaded from: '' @ path)
      | None \<Rightarrow> log_debug (s\<lparr>window_icon := Some StandardDesktopIcon\<rparr>) ''Using fallback system icon'')"

text \<open>
  \<open>setup_ui\<close>, lines 159-186: of the widgets it builds, the text area is the one the
  settings logic reads and writes.
\<close>

definition setup_ui :: "app \<Rightarrow> app" where
  "setup_ui s = s\<lparr>text_area := Some \<lparr>plain_text = [], te_font = None\<rparr>\<rparr>"

definition set_always_on_top :: "app \<Rightarrow> bool \<Rightarrow> app" where
  "set_always_on_top s enable =
     (let s1 = s\<lparr>always_on_top := enable\<rparr>;
          s2 = (if enable then log_debug (s1\<lparr>stays_on_top_hint := True\<rparr>) ''Always On Top: Enabled''
                else log_debug (s1\<lparr>stays_on_top_hint := False\<rparr>) ''Always On Top: Disabled'')
      in s2\<lparr>shown := True\<rparr>)"

text \<open>\<open>QFont.Weight\<close> of Qt 6: the nine weights the dialog offers, in the order of lines 507-515.\<close>

definition QFont_Weight_Normal :: int where
  "QFont_Weight_Normal = 400"

definition weight_items :: "(string \<times> int) list" where
  "weight_items =
     [(''Normal'', QFont_Weight_Normal), (''Thin'', 100), (''ExtraLight'', 200), (''Light'', 300),
      (''Medium'', 500), (''DemiBold'', 600), (''Bold'', 700), (''ExtraBold'', 800), (''Black'', 900)]"

text \<open>\<open>apply_font\<close>, lines 394-399.\<close>

definition apply_font :: "app \<Rightarrow> error + app" where
  "apply_font s =
     (let font = \<lparr>family = font_name s, point_size = font_size s, weight = font_weight s\<rparr>
      in case text_area s of
           None \<Rightarrow> Inl AttributeError
         | Some ta \<Rightarrow>
             Inr (log_debug (s\<lparr>text_area := Some (ta\<lparr>te_font := Some font\<rparr>)\<rparr>)
                    (''Font-Family: '' @ font_name s @ '', Font-Size: '' @ show_int (font_size s) @
                     '', Font-Weight: '' @
                     (case font_weight s of None \<Rightarrow> ''Normal'' | Some w \<Rightarrow> show_int w))))"

section \<open>Saving and loading the settings\<close>

text \<open>
  What \<open>self.saveGeometry()\<close> and \<open>self.saveState()\<close> return at the moment of a call:
  blobs of the Qt library, which follow the user's moving and resizing of the window.
\<close>

record window_blobs =
  geometry_blob :: string
  state_blob :: string

text \<open>
  \<open>save_settings_to_file\<close>, lines 692-704. An exception that leaves a Qt slot ends the
  process, so a failing call has no store to hand on.
\<close>

definition save_settings_to_file :: "app \<Rightarrow> window_blobs \<Rightarrow> qsettings \<Rightarrow> error + qsettings" where
  "save_settings_to_file s win st =
     (let st1 = setValue st ''font_name'' (PyStr (font_name s));
          st2 = setValue st1 ''font_size'' (PyInt (font_size s))
      in case font_weight s of
           None \<Rightarrow> Inl AttributeError
         | Some w \<Rightarrow>
             (let st3 = setValue st2 ''font_weight'' (PyInt w);
                  st4 = setValue st3 ''theme_mode'' (PyStr (theme_mode s))
              in case text_area s of
                   None \<Rightarrow> Inl AttributeError
                 | Some ta \<Rightarrow>
                     (let st5 = setValue st4 ''text_content'' (PyStr (plain_text ta));
                          st6 = setValue st5 ''window_geometry'' (PyBytes (geometry_blob win));
                          st7 = setValue st6 ''window_state'' (PyBytes (state_blob win));
                          st8 = setValue st7 ''show_debug'' (PyBool (show_debug s));
                          st9 = setValue st8 ''always_on_top'' (PyBool (always_on_top s))
                      in Inr (case settings_dialog_geometry s of
                                None \<Rightarrow> st9
                              | Some g \<Rightarrow>
                                  setValue st9 ''settings_dialog_geometry''
                                    (case g of None \<Rightarrow> PyNone | Some b \<Rightarrow> PyBytes b)))))"

text \<open>
  \<open>load_settings\<close>, lines 706-737, in its three parts: the reading of the values
  (lines 710-717), the five log lines (719-723) and the restoring of the window (725-737).
  \<open>if geometry:\<close> holds for a blob that is there and not empty; \<open>RestoredGeometry g\<close> is
  the window as \<open>restoreGeometry(g)\<close> leaves it.
\<close>

definition log_loaded_settings :: "app \<Rightarrow> app" where
  "log_loaded_settings s =
     (let s1 = log_debug s (''Loaded settings - Debug: '' @ show_bool (show_debug s));
          s2 = log_debug s1 (''Loaded settings - Always On Top: '' @ show_bool (always_on_top s1));
          s3 = log_debug s2 (''Loaded settings - Theme: '' @ theme_mode s2);
          s4 = log_debug s3
                 (''Loaded settings - Font-Family: '' @ font_name s3 @
                  '', Font-Size: '' @ show_int (font_size s3))
      in log_debug s4
           (''Loaded settings - Font-Weight: '' @
            (case font_weight s4 of None \<Rightarrow> ''None'' | Some w \<Rightarrow> show_int w)))"

definition restore_window :: "app \<Rightarrow> qsettings \<Rightarrow> app" where
  "restore_window s st =
     (let s1 = (case st ''window_geometry'' of
                  None \<Rightarrow>
                    log_debug (s\<lparr>geometry := Rect 100 100 800 600\<rparr>) ''Using default window geometry''
                | Some g \<Rightarrow>
                    if g \<noteq> [] then
                      log_debug (s\<lparr>geometry := RestoredGeometry g\<rparr>) ''Restored window geometry''
                    else
                      log_debug (s\<lparr>geometry := Rect 100 100 800 600\<rparr>)
                        ''Using default window geometry'')
      in case st ''window_state'' of
           None \<Rightarrow> s1
         | Some ws \<Rightarrow>
             if ws \<noteq> [] then log_debug (s1\<lparr>window_state := Some ws\<rparr>) ''Restored window state''
             else s1)"

definition load_settings :: "app \<Rightarrow> qsettings \<Rightarrow> error + app" where
  "load_settings s st =
     (let s1 = s\<lparr>font_name := QSettings_value_str st ''font_name'' ''Arial''\<rparr>
      in case py_int (QSettings_value st ''font_size'' (PyInt 16)) of
           Inl e \<Rightarrow> Inl e
         | Inr sz \<Rightarrow>
             (let s2 = s1\<lparr>font_size := sz\<rparr>;
                  s3 = s2\<lparr>theme_mode := QSettings_value_str st ''theme_mode'' ''Dark''\<rparr>;
                  s4 = s3\<lparr>text_content := QSettings_value_str st ''text_content'' []\<rparr>;
                  s5 = s4\<lparr>show_debug :=
                            (QSettings_value st ''show_debug'' (PyStr ''false'') = PyStr ''true'')\<rparr>
              in case py_int (QSettings_value st ''font_weight'' (PyInt QFont_Weight_Normal)) of
                   Inl e \<Rightarrow> Inl e
                 | Inr w \<Rightarrow>
                     (let s6 = s5\<lparr>font_weight := Some w\<rparr>;
                          s7 = s6\<lparr>settings_dialog_geometry := Some (st ''settings_dialog_geometry'')\<rparr>;
                          s8 = s7\<lparr>always_on_top :=
                                    (QSettings_value st ''always_on_top'' (PyStr ''false'') = PyStr ''true'')\<rparr>
                      in Inr (restore_window (log_loaded_settings s8) st))))"

text \<open>\<open>closeEvent\<close> of the main window, lines 739-743.\<close>

definition closeEvent :: "app \<Rightarrow> window_blobs \<Rightarrow> qsettings \<Rightarrow> error + app \<times> qsettings" where
  "closeEvent s win st =
     (case text_area s of
        None \<Rightarrow> Inl AttributeError
      | Some ta \<Rightarrow>
          (let s1 = s\<lparr>text_content := plain_text ta\<rparr>
           in case save_settings_to_file s1 win st of
                Inl e \<Rightarrow> Inl e
              | Inr st' \<Rightarrow> Inr (s1, st')))"

text \<open>\<open>handle_debug_console_close\<close>, lines 118-122.\<close>

definition handle_debug_console_close :: "app \<Rightarrow> window_blobs \<Rightarrow> qsettings \<Rightarrow> error + app \<times> qsettings" where
  "handle_debug_console_close s win st =
     (let s1 = s\<lparr>show_debug := False\<rparr>
      in case save_settings_to_file s1 win st of
           Inl e \<Rightarrow> Inl e
         | Inr st' \<Rightarrow> Inr (s1, st'))"

section \<open>Start-up\<close>

text \<open>
  \<open>TextAreaApp.__init__\<close>, lines 26-66, on the store \<open>st\<close> the process finds.
\<close>

definition default_app :: app where
  "default_app =
     \<lparr>debug_console = None, debug_dock = None, font_name = ''Arial'', font_size = 16,
      font_weight = None, theme_mode = ''Dark'', text_content = [], show_debug = False,
      always_on_top = False, settings_dialog_geometry = None, text_area = None,
      style_sheet = NoStyle, geometry = UnsetGeometry, window_state = None,
      window_icon = None, stays_on_top_hint = False, shown = False\<rparr>"

definition init :: "string option \<Rightarrow> qsettings \<Rightarrow> error + app" where
  "init icon_file st =
     (case load_settings default_app st of
        Inl e \<Rightarrow> Inl e
      | Inr s1 \<Rightarrow>
          (let s2 = log_debug s1 ''Application initialized'';
               s3 = set_window_icon s2 icon_file;
               s4 = (if show_debug s3 then
                       (let c = log_debug (init_debug_console s3) ''Application started''
                        in log_debug c (''Current Theme: '' @ theme_mode c))
                     else s3);
               s5 = apply_theme s4 None;
               s6 = setup_ui s5
           in case apply_font s6 of
                Inl e \<Rightarrow> Inl e
              | Inr s7 \<Rightarrow>
                  (case text_area s7 of
                     None \<Rightarrow> Inl AttributeError
                   | Some ta \<Rightarrow>
                       (let s8 = s7\<lparr>text_area := Some (ta\<lparr>plain_text := text_content s7\<rparr>)\<rparr>
                        in Inr (set_always_on_top s8 (always_on_top s8))))))"

section \<open>The settings dialog\<close>

text \<open>
  A \<open>QSpinBox\<close>: Qt keeps its value between minimum and maximum, whoever sets it
  (the program's \<open>setValue\<close>, the arrows, typed digits). A new box ranges over 0..99.
\<close>

record spin_box =
  minimum :: int
  maximum :: int
  spin_value :: int

definition QSpinBox :: spin_box where
  "QSpinBox = \<lparr>minimum = 0, maximum = 99, spin_value = 0\<rparr>"

definition QSpinBox_setRange :: "spin_box \<Rightarrow> int \<Rightarrow> int \<Rightarrow> spin_box" where
  "QSpinBox_setRange sb lo hi =
     (let hi' = max lo hi
      in \<lparr>minimum = lo, maximum = hi', spin_value = max lo (min hi' (spin_value sb))\<rparr>)"

definition QSpinBox_setValue :: "spin_box \<Rightarrow> int \<Rightarrow> spin_box" where
  "QSpinBox_setValue sb v = sb\<lparr>spin_value := max (minimum sb) (min (maximum sb) v)\<rparr>"

text \<open>\<open>QComboBox.findData\<close>: the index of the first item holding the data, or -1.\<close>

fun findData :: "(string \<times> int) list \<Rightarrow> int \<Rightarrow> int" where
  "findData [] v = - 1"
| "findData (item # items) v =
     (if snd item = v then 0
      else (let i = findData items v in if i < 0 then - 1 else i + 1))"

text \<open>
  The widgets of the dialog that \<open>save_settings\<close> reads: the checked id of the theme
  radio group, the two check boxes, the family of the font combo box, the size spin box,
  and the data of the weight combo box's current item; with them the geometry the dialog
  was restored to and the font of the preview pane.
\<close>

record settings_dialog =
  restored_geometry :: "string option"
  theme_checked_id :: int
  aot_checkbox :: bool
  font_combo :: string
  size_spin :: spin_box
  weight_combo :: int
  debug_checkbox :: bool
  preview_font :: "qfont option"

text \<open>\<open>update_preview\<close>, lines 589-594.\<close>

definition update_preview :: "settings_dialog \<Rightarrow> settings_dialog" where
  "update_preview dlg =
     dlg\<lparr>preview_font :=
           Some \<lparr>family = font_combo dlg, point_size = spin_value (size_spin dlg),
                 weight = Some (weight_combo dlg)\<rparr>\<rparr>"

text \<open>
  \<open>open_settings\<close>, lines 401-570, up to the moment the dialog is shown. The font combo
  box is taken to offer the family it is given; the weight combo box starts at its first
  item, \<open>Normal\<close>, and moves to the stored weight when \<open>findData\<close> finds it.
\<close>

definition open_settings :: "app \<Rightarrow> error + settings_dialog \<times> app" where
  "open_settings s =
     (let restored = (case settings_dialog_geometry s of
                        Some (Some g) \<Rightarrow> if g \<noteq> [] then Some g else None
                      | _ \<Rightarrow> None);
          s1 = (if theme_mode s = ''Dark'' then s
                else if theme_mode s = ''Light'' then s
                else log_debug s (''Unknown Theme '' @ quote @ theme_mode s @ quote @
                                  '' set, Defaulting To Dark Theme''));
          checked = (if theme_mode s = ''Dark'' then 1 else if theme_mode s = ''Light'' then 2 else 1);
          spin = QSpinBox_setValue (QSpinBox_setRange QSpinBox 8 72) (font_size s)
      in case font_weight s of
           None \<Rightarrow> Inl AttributeError
         | Some w \<Rightarrow>
             Inr (update_preview
                    \<lparr>restored_geometry = restored, theme_checked_id = checked,
                     aot_checkbox = always_on_top s, font_combo = font_name s, size_spin = spin,
                     weight_combo = (if findData weight_items w \<ge> 0 then w else snd (hd weight_items)),
                     debug_checkbox = show_debug s, preview_font = None\<rparr>,
                  s1))"

text \<open>What the user can do in the open dialog before leaving it.\<close>

datatype dialog_edit =
  CheckDark | CheckLight | SetAlwaysOnTop bool | PickFont string
  | SetFontSize int | PickWeight nat | SetShowDebug bool

fun apply_edit :: "settings_dialog \<Rightarrow> dialog_edit \<Rightarrow> settings_dialog" where
  "apply_edit dlg CheckDark = dlg\<lparr>theme_checked_id := 1\<rparr>"
| "apply_edit dlg CheckLight = dlg\<lparr>theme_checked_id := 2\<rparr>"
| "apply_edit dlg (SetAlwaysOnTop b) = dlg\<lparr>aot_checkbox := b\<rparr>"
| "apply_edit dlg (PickFont f) = update_preview (dlg\<lparr>font_combo := f\<rparr>)"
| "apply_edit dlg (SetFontSize v) =
     update_preview (dlg\<lparr>size_spin := QSpinBox_setValue (size_spin dlg) v\<rparr>)"
| "apply_edit dlg (PickWeight i) =
     (if i < length weight_items then update_preview (dlg\<lparr>weight_combo := snd (weight_items ! i)\<rparr>)
      else dlg)"
| "apply_edit dlg (SetShowDebug b) = dlg\<lparr>debug_checkbox := b\<rparr>"

text \<open>
  \<open>close_event\<close>, lines 572-575, the dialog's \<open>closeEvent\<close>: \<open>dlg_blob\<close> is what
  \<open>settings_dialog.saveGeometry()\<close> returns. The \<open>close()\<close> it ends with finds the dialog
  closing already and does nothing.
\<close>

definition close_event :: "app \<Rightarrow> string \<Rightarrow> window_blobs \<Rightarrow> qsettings \<Rightarrow> error + app \<times> qsettings" where
  "close_event s dlg_blob win st =
     (let s1 = s\<lparr>settings_dialog_geometry := Some (Some dlg_blob)\<rparr>
      in case save_settings_to_file s1 win st of
           Inl e \<Rightarrow> Inl e
         | Inr st' \<Rightarrow> Inr (s1, st'))"

text \<open>
  \<open>save_settings\<close>, lines 596-690, block by block. First the blocks that read the
  dialog: the theme selection with its validation (lines 600-614), the font (616-629),
  the always-on-top setting (631-637) and the debug setting (639-645), whose
  \<open>debug_setting_changed\<close> the caller computes, as it is used again further down.
\<close>

definition get_theme_selection :: "app \<Rightarrow> settings_dialog \<Rightarrow> app" where
  "get_theme_selection s dlg =
     (let theme_id = theme_checked_id dlg;
          s1 = s\<lparr>theme_mode := (if theme_id = 1 then ''Dark''
                                 else if theme_id = 2 then ''Light'' else ''Dark'')\<rparr>;
          s2 = (if theme_mode s1 \<notin> set [''Dark'', ''Light''] then
                  (log_debug s1 (''Invalid Theme Selected: '' @ theme_mode s1 @
                                 '', Defaulting To Dark''))\<lparr>theme_mode := ''Dark''\<rparr>
                else s1)
      in log_debug s2 (''Theme Changed To: '' @ theme_mode s2))"

definition get_font_selection :: "app \<Rightarrow> settings_dialog \<Rightarrow> app" where
  "get_font_selection s dlg =
     (let old_font = font_name s;
          old_size = font_size s;
          old_weight = (case font_weight s of None \<Rightarrow> QFont_Weight_Normal | Some w \<Rightarrow> w);
          s1 = s\<lparr>font_name := font_combo dlg, font_size := spin_value (size_spin dlg),
                 font_weight := Some (weight_combo dlg)\<rparr>;
          s2 = (if old_font \<noteq> font_name s1 then
                  log_debug s1 (''Font-Family Changed From '' @ old_font @ '' To '' @ font_name s1)
                else s1);
          s3 = (if old_size \<noteq> font_size s2 then
                  log_debug s2 (''Font-Size Changed From '' @ show_int old_size @ '' To '' @
                                show_int (font_size s2))
                else s2)
      in if Some old_weight \<noteq> font_weight s3 then
           log_debug s3 (''Font-Weight Changed From '' @ show_int old_weight @ '' To '' @
                         show_int (weight_combo dlg))
         else s3)"

definition get_always_on_top_setting :: "app \<Rightarrow> settings_dialog \<Rightarrow> app" where
  "get_always_on_top_setting s dlg =
     (let new_aot_setting = aot_checkbox dlg;
          aot_setting_changed = (new_aot_setting \<noteq> always_on_top s)
      in if aot_setting_changed then
           (let a = set_always_on_top s new_aot_setting
            in log_debug a (''Always On Top setting changed to: '' @ show_bool (always_on_top a)))
         else s)"

definition get_debug_setting :: "app \<Rightarrow> bool \<Rightarrow> bool \<Rightarrow> app" where
  "get_debug_setting s new_debug_setting debug_setting_changed =
     (let s1 = s\<lparr>show_debug := new_debug_setting\<rparr>
      in if debug_setting_changed then
           log_debug s1 (''Debug console setting changed to: '' @ show_bool (show_debug s1))
         else s1)"

text \<open>
  The two blocks after \<open>apply_theme\<close> and \<open>apply_font\<close>: the visibility of the debug
  console (lines 654-661) and the style sheet of the console, if there is one (663-684).
\<close>

definition handle_debug_console_visibility :: "app \<Rightarrow> bool \<Rightarrow> app" where
  "handle_debug_console_visibility s debug_setting_changed =
     (if debug_setting_changed then
        (if show_debug s then log_debug (init_debug_console s) ''Debug console enabled''
         else
           (case debug_dock s of
              None \<Rightarrow> s
            | Some d \<Rightarrow>
                log_debug (s\<lparr>debug_dock := Some (d\<lparr>dock_visible := False\<rparr>)\<rparr>)
                  ''Debug console hidden''))
      else s)"

definition force_update_debug_console_theme :: "app \<Rightarrow> app" where
  "force_update_debug_console_theme s =
     (if theme_mode s = ''Dark'' then set_console_style s DarkConsoleStyle
      else set_console_style s LightConsoleStyle)"

text \<open>
  The whole of \<open>save_settings\<close>. Its last statement, \<open>dialog.close()\<close>, sends the dialog
  the close event, which runs \<open>close_event\<close>.
\<close>

definition save_settings ::
  "app \<Rightarrow> settings_dialog \<Rightarrow> string \<Rightarrow> window_blobs \<Rightarrow> qsettings \<Rightarrow> error + app \<times> qsettings" where
  "save_settings s dlg dlg_blob win st =
     (let s1 = s\<lparr>settings_dialog_geometry := Some (Some dlg_blob)\<rparr>;
          s2 = get_theme_selection s1 dlg;
          s3 = get_font_selection s2 dlg;
          s4 = get_always_on_top_setting s3 dlg;
          new_debug_setting = debug_checkbox dlg;
          debug_setting_changed = (new_debug_setting \<noteq> show_debug s4);
          s5 = get_debug_setting s4 new_debug_setting debug_setting_changed;
          s6 = apply_theme s5 None
      in case apply_font s6 of
           Inl e \<Rightarrow> Inl e
         | Inr s7 \<Rightarrow>
             (let s8 = handle_debug_console_visibility s7 debug_setting_changed;
                  s9 = force_update_debug_console_theme s8
              in case save_settings_to_file s9 win st of
                   Inl e \<Rightarrow> Inl e
                 | Inr st1 \<Rightarrow> close_event (log_debug s9 ''Settings Saved.'') dlg_blob win st1))"

text \<open>
  A click on "Save Settings" runs the two slots connected to the button, in the order
  of their connection: the lambda of line 566 and \<open>save_settings_wrapper\<close> of lines 580-582.
\<close>

definition save_button_clicked ::
  "app \<Rightarrow> settings_dialog \<Rightarrow> string \<Rightarrow> window_blobs \<Rightarrow> qsettings \<Rightarrow> error + app \<times> qsettings" where
  "save_button_clicked s dlg dlg_blob win st =
     (case save_settings s dlg dlg_blob win st of
        Inl e \<Rightarrow> Inl e
      | Inr (s1, st1) \<Rightarrow>
          save_settings (s1\<lparr>settings_dialog_geometry := Some (Some dlg_blob)\<rparr>) dlg dlg_blob win st1)"

section \<open>A session of the program\<close>

text \<open>
  What can happen to the running window between start-up and its closing: the user types
  (the text area then holds \<open>t\<close>), opens the settings dialog, edits it and leaves it by
  "Save Settings" or by closing it, or closes the dock of the debug console.
\<close>

datatype event =
  TextEdited string
  | SettingsSaved "dialog_edit list" string window_blobs
  | SettingsDiscarded "dialog_edit list" string window_blobs
  | DebugConsoleClosed window_blobs

fun step :: "app \<times> qsettings \<Rightarrow> event \<Rightarrow> error + app \<times> qsettings" where
  "step (s, st) (TextEdited t) =
     (case text_area s of
        None \<Rightarrow> Inl AttributeError
      | Some ta \<Rightarrow> Inr (s\<lparr>text_area := Some (ta\<lparr>plain_text := t\<rparr>)\<rparr>, st))"
| "step (s, st) (SettingsSaved edits dlg_blob win) =
     (case open_settings s of
        Inl e \<Rightarrow> Inl e
      | Inr (dlg, s1) \<Rightarrow> save_button_clicked s1 (foldl apply_edit dlg edits) dlg_blob win st)"
| "step (s, st) (SettingsDiscarded edits dlg_blob win) =
     (case open_settings s of
        Inl e \<Rightarrow> Inl e
      | Inr (dlg, s1) \<Rightarrow> close_event s1 dlg_blob win st)"
| "step (s, st) (DebugConsoleClosed win) =
     (case debug_dock s of
        None \<Rightarrow> Inr (s, st)
      | Some d \<Rightarrow> handle_debug_console_close s win st)"

fun run :: "app \<times> qsettings \<Rightarrow> event list \<Rightarrow> error + app \<times> qsettings" where
  "run c [] = Inr c"
| "run c (ev # evs) = (case step c ev of Inl e \<Rightarrow> Inl e | Inr c' \<Rightarrow> run c' evs)"

text \<open>
  A whole session: start-up on the store found, the events, then the closing of the
  main window. Its result is the window's last state and the store left behind.
\<close>

definition session ::
  "string option \<Rightarrow> qsettings \<Rightarrow> event list \<Rightarrow> window_blobs \<Rightarrow> error + app \<times> qsettings" where
  "session icon_file st evs win =
     (case init icon_file st of
        Inl e \<Rightarrow> Inl e
      | Inr s \<Rightarrow>
          (case run (s, st) evs of
             Inl e \<Rightarrow> Inl e
           | Inr (s', st') \<Rightarrow> closeEvent s' win st'))"

text \<open>Start-up followed by events, the window still open.\<close>

definition running :: "string option \<Rightarrow> qsettings \<Rightarrow> event list \<Rightarrow> error + app \<times> qsettings" where
  "running icon_file st evs =
     (case init icon_file st of
        Inl e \<Rightarrow> Inl e
      | Inr s \<Rightarrow> run (s, st) evs)"

section \<open>What the properties speak about\<close>

text \<open>
  The visible style state: the style sheet of the main window, that of the debug console
  when there is one, and the theme in force.
\<close>

definition visible_style :: "app \<Rightarrow> style_sheet \<times> style_sheet option \<times> string" where
  "visible_style s = (style_sheet s, map_option pte_style (debug_console s), theme_mode s)"

definition valid_theme :: "string \<Rightarrow> bool" where
  "valid_theme t \<longleftrightarrow> t = ''Dark'' \<or> t = ''Light''"

definition font_size_in_range :: "int \<Rightarrow> bool" where
  "font_size_in_range n \<longleftrightarrow> 8 \<le> n \<and> n \<le> 72"

text \<open>
  A store whose \<open>font_size\<close> is absent, or is text that \<open>int()\<close> reads as a size
  between 8 and 72.
\<close>

definition stored_font_size_ok :: "qsettings \<Rightarrow> bool" where
  "stored_font_size_ok st =
     (case st ''font_size'' of
        None \<Rightarrow> True
      | Some v \<Rightarrow> (case py_int_str v of Inl e \<Rightarrow> False | Inr n \<Rightarrow> font_size_in_range n))"

text \<open>
  A store whose \<open>font_size\<close> and \<open>font_weight\<close> are each absent or text that \<open>int()\<close>
  accepts.
\<close>

definition int_or_absent :: "qsettings \<Rightarrow> string \<Rightarrow> bool" where
  "int_or_absent st key =
     (case st key of
        None \<Rightarrow> True
      | Some v \<Rightarrow> (case py_int_str v of Inl e \<Rightarrow> False | Inr n \<Rightarrow> True))"

text \<open>The text a key holds in the store an operation leaves; nothing when it raised.\<close>

definition store_after :: "error + app \<times> qsettings \<Rightarrow> string \<Rightarrow> string option" where
  "store_after r key = (case r of Inl e \<Rightarrow> None | Inr c \<Rightarrow> snd c key)"

text \<open>The window an operation leaves, read through a field; nothing when it raised.\<close>

definition field_after :: "(app \<Rightarrow> 'a) \<Rightarrow> error + app \<Rightarrow> 'a option" where
  "field_after f r = (case r of Inl e \<Rightarrow> None | Inr s \<Rightarrow> Some (f s))"

text \<open>The substantive fields of the configuration, those the settings dialog edits.\<close>

definition configuration :: "app \<Rightarrow> string \<times> string \<times> int \<times> int option \<times> bool \<times> bool" where
  "configuration s =
     (theme_mode s, font_name s, font_size s, font_weight s, always_on_top s, show_debug s)"

text \<open>
  The window after \<open>__init__\<close>: \<open>font_weight\<close> is set and the text area exists, so no
  handler can miss an attribute.
\<close>

definition window_ready :: "app \<Rightarrow> bool" where
  "window_ready s \<longleftrightarrow> \<not> Option.is_none (font_weight s) \<and> \<not> Option.is_none (text_area s)"

text \<open>
  The window an operation on window and store leaves, and what a fresh process makes of
  the store it leaves: \<open>load_settings\<close> run on the state \<open>__init__\<close> starts from.
\<close>

definition window_after :: "error + app \<times> qsettings \<Rightarrow> error + app" where
  "window_after r = (case r of Inl e \<Rightarrow> Inl e | Inr c \<Rightarrow> Inr (fst c))"

definition fresh_process :: "error + app \<times> qsettings \<Rightarrow> error + app" where
  "fresh_process r = (case r of Inl e \<Rightarrow> Inl e | Inr c \<Rightarrow> load_settings default_app (snd c))"

section \<open>Helper facts\<close>

subsection \<open>Printing and reading integers\<close>

lemma char_of_digit_props:
  assumes "d < 10"
  shows "is_digit (char_of_digit d)" and "digit_of_char (char_of_digit d) = d"
    and "\<not> is_space (char_of_digit d)" and "char_of_digit d \<noteq> CHR ''-''"
    and "char_of_digit d \<noteq> CHR ''+''"
proof -
  have v: "(of_char (char_of_digit d) :: nat) = 48 + d"
    using assms by (simp add: char_of_digit_def)
  show "is_digit (char_of_digit d)" "digit_of_char (char_of_digit d) = d"
    "\<not> is_space (char_of_digit d)"
    using assms by (simp_all add: is_digit_def digit_of_char_def is_space_def v)
  have "(of_char (char_of_digit d) :: nat) \<noteq> of_char CHR ''-''"
    "(of_char (char_of_digit d) :: nat) \<noteq> of_char CHR ''+''"
    unfolding v by simp_all
  then show "char_of_digit d \<noteq> CHR ''-''" "char_of_digit d \<noteq> CHR ''+''"
    by auto
qed

lemma show_nat_not_Nil: "show_nat n \<noteq> []"
  by (subst show_nat.simps) simp

lemma show_nat_digits: "c \<in> set (show_nat n) \<Longrightarrow> is_digit c"
proof (induction n arbitrary: c rule: show_nat.induct)
  case (1 n)
  show ?case
  proof (cases "n < 10")
    case True
    with "1.prems" show ?thesis
      by (subst (asm) show_nat.simps) (simp add: char_of_digit_props)
  next
    case False
    with "1.prems" "1.IH" show ?thesis
      by (subst (asm) show_nat.simps) (auto simp: char_of_digit_props)
  qed
qed

lemma digits_value_all_digits:
  "(\<And>c. c \<in> set cs \<Longrightarrow> is_digit c) \<Longrightarrow>
   digits_value acc cs = Some (foldl (\<lambda>a c. 10 * a + digit_of_char c) acc cs)"
  by (induction cs arbitrary: acc) simp_all

lemma unsigned_value_all_digits:
  assumes "cs \<noteq> []" and "\<And>c. c \<in> set cs \<Longrightarrow> is_digit c"
  shows "unsigned_value cs = Some (foldl (\<lambda>a c. 10 * a + digit_of_char c) 0 cs)"
  using assms by (cases cs) (simp_all add: unsigned_value_def digits_value_all_digits)

lemma foldl_show_nat: "foldl (\<lambda>a c. 10 * a + digit_of_char c) 0 (show_nat n) = n"
proof (induction n rule: show_nat.induct)
  case (1 n)
  show ?case
  proof (cases "n < 10")
    case True
    then show ?thesis
      by (subst show_nat.simps) (simp add: char_of_digit_props)
  next
    case False
    with "1.IH" show ?thesis
      by (subst show_nat.simps) (simp add: char_of_digit_props)
  qed
qed

lemma unsigned_value_show_nat: "unsigned_value (show_nat n) = Some n"
  by (simp add: unsigned_value_all_digits show_nat_not_Nil show_nat_digits foldl_show_nat)

lemma digit_not_special:
  assumes "is_digit c"
  shows "\<not> is_space c" and "c \<noteq> CHR ''-''" and "c \<noteq> CHR ''+''"
  using assms by (auto simp: is_digit_def is_space_def)

lemma strip_no_space:
  assumes "s \<noteq> []" and "\<not> is_space (hd s)" and "\<not> is_space (last s)"
  shows "int_strip s = s"
proof -
  from assms have "dropWhile is_space s = s"
    by (cases s) simp_all
  moreover from assms have "dropWhile is_space (rev s) = rev s"
    by (cases "rev s") (simp_all add: last_rev [symmetric] del: last_rev)
  ultimately show ?thesis by (simp add: int_strip_def)
qed

lemma strip_all_nonspace:
  assumes "s \<noteq> []" and "\<And>c. c \<in> set s \<Longrightarrow> \<not> is_space c"
  shows "int_strip s = s"
  using assms by (intro strip_no_space) simp_all

lemma strip_show_nat: "int_strip (show_nat n) = show_nat n"
  by (rule strip_all_nonspace)
     (simp_all add: show_nat_not_Nil show_nat_digits digit_not_special)

lemma strip_minus_show_nat: "int_strip (CHR ''-'' # show_nat n) = CHR ''-'' # show_nat n"
proof (rule strip_all_nonspace)
  fix c
  assume "c \<in> set (CHR ''-'' # show_nat n)"
  then consider "c = CHR ''-''" | "c \<in> set (show_nat n)"
    by auto
  then show "\<not> is_space c"
  proof cases
    case 1
    then show ?thesis by (simp add: is_space_def)
  next
    case 2
    then show ?thesis by (simp add: show_nat_digits digit_not_special)
  qed
qed simp

lemma py_int_str_show_int: "py_int_str (show_int i) = Inr i"
proof (cases "i < 0")
  case True
  then show ?thesis
    by (simp add: py_int_str_def show_int_def strip_minus_show_nat unsigned_value_show_nat)
next
  case False
  obtain c cs where cs: "show_nat (nat i) = c # cs"
    using show_nat_not_Nil [of "nat i"] by (cases "show_nat (nat i)") auto
  then have "is_digit c"
    using show_nat_digits [of c "nat i"] by simp
  then have c: "c \<noteq> CHR ''-''" "c \<noteq> CHR ''+''"
    by (simp_all add: digit_not_special)
  have s: "int_strip (c # cs) = c # cs"
    using strip_show_nat [of "nat i"] by (simp add: cs)
  have u: "unsigned_value (c # cs) = Some (nat i)"
    using unsigned_value_show_nat [of "nat i"] by (simp add: cs)
  from False show ?thesis
    by (simp add: py_int_str_def show_int_def cs s u c)
qed

subsection \<open>The theme\<close>

lemma log_debug_fields [simp]:
  "theme_mode (log_debug s m) = theme_mode s"
  "style_sheet (log_debug s m) = style_sheet s"
  "font_name (log_debug s m) = font_name s"
  "font_size (log_debug s m) = font_size s"
  "font_weight (log_debug s m) = font_weight s"
  "text_content (log_debug s m) = text_content s"
  "show_debug (log_debug s m) = show_debug s"
  "always_on_top (log_debug s m) = always_on_top s"
  "settings_dialog_geometry (log_debug s m) = settings_dialog_geometry s"
  "text_area (log_debug s m) = text_area s"
  "debug_dock (log_debug s m) = debug_dock s"
  "geometry (log_debug s m) = geometry s"
  "window_state (log_debug s m) = window_state s"
  "map_option pte_style (debug_console (log_debug s m)) = map_option pte_style (debug_console s)"
  by (simp_all add: log_debug_def split: option.splits)

lemma set_console_style_fields [simp]:
  "theme_mode (set_console_style s c) = theme_mode s"
  "style_sheet (set_console_style s c) = style_sheet s"
  "font_name (set_console_style s c) = font_name s"
  "font_size (set_console_style s c) = font_size s"
  "font_weight (set_console_style s c) = font_weight s"
  "text_content (set_console_style s c) = text_content s"
  "show_debug (set_console_style s c) = show_debug s"
  "always_on_top (set_console_style s c) = always_on_top s"
  "settings_dialog_geometry (set_console_style s c) = settings_dialog_geometry s"
  "text_area (set_console_style s c) = text_area s"
  "debug_dock (set_console_style s c) = debug_dock s"
  "geometry (set_console_style s c) = geometry s"
  "window_state (set_console_style s c) = window_state s"
  "map_option pte_style (debug_console (set_console_style s c)) = map_option (\<lambda>_. c) (debug_console s)"
  by (simp_all add: set_console_style_def split: option.splits)

lemma apply_theme_count_Dark:
  "apply_theme_count s None = (set_console_style (s\<lparr>style_sheet := DarkWindowStyle\<rparr>) DarkConsoleStyle, 0)"
  if "theme_mode s = ''Dark''"
  using that by (simp add: apply_theme_count.simps [of s None])

lemma apply_theme_count_Light:
  "apply_theme_count s None = (set_console_style (s\<lparr>style_sheet := LightWindowStyle\<rparr>) LightConsoleStyle, 0)"
  if "theme_mode s = ''Light''"
  using that by (simp add: apply_theme_count.simps [of s None])

lemma apply_theme_count_unknown:
  "apply_theme_count s None =
     (set_console_style
        ((log_debug s (''Unknown Theme '' @ quote @ theme_mode s @ quote @
                        '' set, Defaulting To Dark Theme''))\<lparr>theme_mode := ''Dark'', style_sheet := DarkWindowStyle\<rparr>)
        DarkConsoleStyle, 1)"
  if "theme_mode s \<noteq> ''Dark''" "theme_mode s \<noteq> ''Light''"
  using that
  by (simp add: apply_theme_count.simps [of s None] apply_theme_count_Dark Let_def)

lemma apply_theme_count_Some:
  "apply_theme_count s (Some t) =
     apply_theme_count (log_debug (s\<lparr>theme_mode := t\<rparr>) (''Theme Changed To: '' @ t)) None"
proof -
  define s1 where "s1 = log_debug (s\<lparr>theme_mode := t\<rparr>) (''Theme Changed To: '' @ t)"
  have "apply_theme_count s (Some t) =
      (if theme_mode s1 = ''Dark'' then
           (set_console_style (s1\<lparr>style_sheet := DarkWindowStyle\<rparr>) DarkConsoleStyle, 0)
         else if theme_mode s1 = ''Light'' then
           (set_console_style (s1\<lparr>style_sheet := LightWindowStyle\<rparr>) LightConsoleStyle, 0)
         else
           (let s2 = log_debug s1
                       (''Unknown Theme '' @ quote @ theme_mode s1 @ quote @
                        '' set, Defaulting To Dark Theme'');
                r = apply_theme_count (s2\<lparr>theme_mode := ''Dark''\<rparr>) None
            in (fst r, Suc (snd r))))"
    by (subst apply_theme_count.simps) (simp add: s1_def Let_def)
  also have "\<dots> = apply_theme_count s1 None"
    by (subst (2) apply_theme_count.simps) (simp add: Let_def)
  finally show ?thesis by (simp add: s1_def)
qed


lemma map_option_const: "map_option (\<lambda>_. c) x = (if Option.is_none x then None else Some c)"
  by (cases x) simp_all

lemma console_presence [simp]:
  "Option.is_none (debug_console (log_debug s m)) = Option.is_none (debug_console s)"
  "Option.is_none (debug_console (set_console_style s c)) = Option.is_none (debug_console s)"
  by (simp_all add: log_debug_def set_console_style_def split: option.splits)

lemma console_style_set [simp]:
  "map_option pte_style (debug_console (set_console_style s c)) =
     (if Option.is_none (debug_console s) then None else Some c)"
  by (simp add: set_console_style_def split: option.splits)

lemma apply_theme_known:
  assumes "valid_theme t"
  shows "visible_style (apply_theme s (Some t)) =
           (if t = ''Dark'' then (DarkWindowStyle, map_option (\<lambda>_. DarkConsoleStyle) (debug_console s), ''Dark'')
            else (LightWindowStyle, map_option (\<lambda>_. LightConsoleStyle) (debug_console s), ''Light''))"
    and "Option.is_none (debug_console (apply_theme s (Some t))) = Option.is_none (debug_console s)"
proof -
  from assms consider "t = ''Dark''" | "t = ''Light''"
    by (auto simp: valid_theme_def)
  then have "visible_style (apply_theme s (Some t)) =
           (if t = ''Dark'' then (DarkWindowStyle, map_option (\<lambda>_. DarkConsoleStyle) (debug_console s), ''Dark'')
            else (LightWindowStyle, map_option (\<lambda>_. LightConsoleStyle) (debug_console s), ''Light''))
      \<and> Option.is_none (debug_console (apply_theme s (Some t))) = Option.is_none (debug_console s)"
    by cases
      (simp_all add: apply_theme_def apply_theme_count_Some apply_theme_count_Dark
        apply_theme_count_Light visible_style_def map_option_const)
  then show "visible_style (apply_theme s (Some t)) =
           (if t = ''Dark'' then (DarkWindowStyle, map_option (\<lambda>_. DarkConsoleStyle) (debug_console s), ''Dark'')
            else (LightWindowStyle, map_option (\<lambda>_. LightConsoleStyle) (debug_console s), ''Light''))"
    and "Option.is_none (debug_console (apply_theme s (Some t))) = Option.is_none (debug_console s)"
    by simp_all
qed

text \<open>
  Claim C2. For every theme identifier \<open>t\<close> outside Dark and Light, \<open>apply_theme\<close>
  returns (it is a total function: the recursion of line 392 ends, by the termination
  proof above), the corrective substitution of line 391 happens exactly once, and the
  result has \<open>theme_mode\<close> Dark with the Dark style sheets on the window and on the debug
  console, when there is one. This holds for \<open>apply_theme(t)\<close> and for
  \<open>apply_theme()\<close> called while \<open>theme_mode\<close> is \<open>t\<close>.
\<close>

theorem apply_theme_unknown_resolves_to_dark:
  assumes "t \<noteq> ''Dark''" and "t \<noteq> ''Light''"
  shows "snd (apply_theme_count s (Some t)) = 1
       \<and> visible_style (apply_theme s (Some t)) =
           (DarkWindowStyle, map_option (\<lambda>_. DarkConsoleStyle) (debug_console s), ''Dark'')
       \<and> snd (apply_theme_count (s\<lparr>theme_mode := t\<rparr>) None) = 1
       \<and> visible_style (apply_theme (s\<lparr>theme_mode := t\<rparr>) None) =
           (DarkWindowStyle, map_option (\<lambda>_. DarkConsoleStyle) (debug_console s), ''Dark'')"
proof -
  have none: "snd (apply_theme_count a None) = 1
       \<and> visible_style (apply_theme a None) =
           (DarkWindowStyle, map_option (\<lambda>_. DarkConsoleStyle) (debug_console a), ''Dark'')"
    if "theme_mode a = t" for a
    using that assms
    by (simp add: apply_theme_def apply_theme_count_unknown visible_style_def map_option_const)
  from none [of "log_debug (s\<lparr>theme_mode := t\<rparr>) (''Theme Changed To: '' @ t)"]
    none [of "s\<lparr>theme_mode := t\<rparr>"]
  show ?thesis
    by (simp add: apply_theme_def apply_theme_count_Some map_option_const)
qed

theorem apply_theme_unknown_resolves_to_dark_witness:
  "''Purple'' \<noteq> ''Dark'' \<and> ''Purple'' \<noteq> ''Light''
   \<and> snd (apply_theme_count default_app (Some ''Purple'')) = 1
   \<and> visible_style (apply_theme default_app (Some ''Purple'')) = (DarkWindowStyle, None, ''Dark'')"
  using apply_theme_unknown_resolves_to_dark [of "''Purple''" default_app]
  by (simp add: default_app_def)

text \<open>
  Claim C8. For a valid theme, Dark or Light, calling \<open>apply_theme\<close> with it twice in
  succession leaves the same visible style state (style sheet of the main window, style
  sheet of the debug console, \<open>theme_mode\<close>) as calling it once.
\<close>

theorem apply_theme_idempotent:
  assumes "valid_theme t"
  shows "visible_style (apply_theme (apply_theme s (Some t)) (Some t)) =
         visible_style (apply_theme s (Some t))"
proof -
  note known = apply_theme_known [OF assms]
  have "visible_style (apply_theme (apply_theme s (Some t)) (Some t)) =
          (if t = ''Dark''
           then (DarkWindowStyle,
                 map_option (\<lambda>_. DarkConsoleStyle) (debug_console (apply_theme s (Some t))), ''Dark'')
           else (LightWindowStyle,
                 map_option (\<lambda>_. LightConsoleStyle) (debug_console (apply_theme s (Some t))), ''Light''))"
    by (rule known(1))
  also have "\<dots> = visible_style (apply_theme s (Some t))"
    unfolding known(1) [of s] map_option_const known(2) [of s] ..
  finally show ?thesis .
qed

theorem apply_theme_idempotent_witness:
  "valid_theme ''Light''
   \<and> visible_style (apply_theme (apply_theme default_app (Some ''Light'')) (Some ''Light'')) =
     visible_style (apply_theme default_app (Some ''Light''))"
  using apply_theme_idempotent [of "''Light''" default_app]
  by (simp add: valid_theme_def)

subsection \<open>Saving and loading\<close>

lemma save_settings_to_file_store:
  assumes "font_weight s = Some w" and "text_area s = Some ta"
  shows "\<exists>st'. save_settings_to_file s win st = Inr st'
     \<and> st' ''font_name'' = Some (font_name s)
     \<and> st' ''font_size'' = Some (show_int (font_size s))
     \<and> st' ''font_weight'' = Some (show_int w)
     \<and> st' ''theme_mode'' = Some (theme_mode s)
     \<and> st' ''text_content'' = Some (plain_text ta)
     \<and> st' ''window_geometry'' = Some (geometry_blob win)
     \<and> st' ''window_state'' = Some (state_blob win)
     \<and> st' ''show_debug'' = Some (if show_debug s then ''true'' else ''false'')
     \<and> st' ''always_on_top'' = Some (if always_on_top s then ''true'' else ''false'')
     \<and> st' ''settings_dialog_geometry'' =
          (case settings_dialog_geometry s of None \<Rightarrow> st ''settings_dialog_geometry'' | Some g \<Rightarrow> g)
     \<and> (\<forall>k. k \<notin> set [''font_name'', ''font_size'', ''font_weight'', ''theme_mode'',
                       ''text_content'', ''window_geometry'', ''window_state'', ''show_debug'',
                       ''always_on_top'', ''settings_dialog_geometry''] \<longrightarrow> st' k = st k)"
  using assms
  by (simp add: save_settings_to_file_def setValue_def Let_def split: option.splits)

lemma bool_value:
  "(QSettings_value st k (PyStr ''false'') = PyStr ''true'') = (st k = Some ''true'')"
  by (simp add: QSettings_value_def split: option.splits)

lemma log_loaded_settings_fields [simp]:
  "theme_mode (log_loaded_settings s) = theme_mode s"
  "style_sheet (log_loaded_settings s) = style_sheet s"
  "font_name (log_loaded_settings s) = font_name s"
  "font_size (log_loaded_settings s) = font_size s"
  "font_weight (log_loaded_settings s) = font_weight s"
  "text_content (log_loaded_settings s) = text_content s"
  "show_debug (log_loaded_settings s) = show_debug s"
  "always_on_top (log_loaded_settings s) = always_on_top s"
  "settings_dialog_geometry (log_loaded_settings s) = settings_dialog_geometry s"
  "text_area (log_loaded_settings s) = text_area s"
  "debug_dock (log_loaded_settings s) = debug_dock s"
  "geometry (log_loaded_settings s) = geometry s"
  "window_state (log_loaded_settings s) = window_state s"
  "Option.is_none (debug_console (log_loaded_settings s)) = Option.is_none (debug_console s)"
  by (simp_all add: log_loaded_settings_def Let_def)

lemma restore_window_fields [simp]:
  "theme_mode (restore_window s st) = theme_mode s"
  "style_sheet (restore_window s st) = style_sheet s"
  "font_name (restore_window s st) = font_name s"
  "font_size (restore_window s st) = font_size s"
  "font_weight (restore_window s st) = font_weight s"
  "text_content (restore_window s st) = text_content s"
  "show_debug (restore_window s st) = show_debug s"
  "always_on_top (restore_window s st) = always_on_top s"
  "settings_dialog_geometry (restore_window s st) = settings_dialog_geometry s"
  "text_area (restore_window s st) = text_area s"
  "debug_dock (restore_window s st) = debug_dock s"
  "Option.is_none (debug_console (restore_window s st)) = Option.is_none (debug_console s)"
  "geometry (restore_window s st) =
     (case st ''window_geometry'' of None \<Rightarrow> Rect 100 100 800 600
      | Some g \<Rightarrow> if g \<noteq> [] then RestoredGeometry g else Rect 100 100 800 600)"
  by (simp_all add: restore_window_def Let_def split: option.splits)

lemma load_settings_result:
  assumes "py_int (QSettings_value st ''font_size'' (PyInt 16)) = Inr n"
    and "py_int (QSettings_value st ''font_weight'' (PyInt QFont_Weight_Normal)) = Inr w"
  shows "\<exists>s'. load_settings s st = Inr s'
     \<and> font_name s' = QSettings_value_str st ''font_name'' ''Arial''
     \<and> font_size s' = n \<and> font_weight s' = Some w
     \<and> theme_mode s' = QSettings_value_str st ''theme_mode'' ''Dark''
     \<and> text_content s' = QSettings_value_str st ''text_content'' []
     \<and> show_debug s' = (st ''show_debug'' = Some ''true'')
     \<and> always_on_top s' = (st ''always_on_top'' = Some ''true'')
     \<and> settings_dialog_geometry s' = Some (st ''settings_dialog_geometry'')
     \<and> text_area s' = text_area s
     \<and> Option.is_none (debug_console s') = Option.is_none (debug_console s)
     \<and> debug_dock s' = debug_dock s
     \<and> geometry s' = (case st ''window_geometry'' of None \<Rightarrow> Rect 100 100 800 600
                       | Some g \<Rightarrow> if g \<noteq> [] then RestoredGeometry g else Rect 100 100 800 600)"
  using assms
  by (simp add: load_settings_def bool_value)

lemma read_back_int:
  "st k = Some (show_int i) \<Longrightarrow> py_int (QSettings_value st k d) = Inr i"
  by (simp add: QSettings_value_def py_int_str_show_int)

lemma read_back_str:
  "st k = Some v \<Longrightarrow> QSettings_value_str st k d = v"
  by (simp add: QSettings_value_str_def)

lemma int_or_absent_read:
  assumes "int_or_absent st k"
  shows "\<exists>n. py_int (QSettings_value st k (PyInt d)) = Inr n \<and> (st k = None \<longrightarrow> n = d)"
  using assms
  by (auto simp: int_or_absent_def QSettings_value_def split: option.splits sum.splits)


text \<open>
  Claim C1, as the code has it. Whenever \<open>save_settings_to_file\<close> can run (the window has
  its font weight and its text area), it returns a store from which \<open>load_settings\<close>, in
  a process starting from any state, succeeds and reads back the font family, font size,
  font weight, theme, debug flag and always-on-top flag that were saved. The text content
  it reads back is the text the editor held when saving (line 698 writes
  \<open>text_area.toPlainText()\<close>), which is the saved \<open>text_content\<close> only when that field is
  in step with the editor.
\<close>

theorem save_then_load_round_trip:
  assumes "font_weight s = Some w" and "text_area s = Some ta"
  shows "\<exists>st' s'. save_settings_to_file s win st = Inr st' \<and> load_settings fresh st' = Inr s'
     \<and> font_name s' = font_name s \<and> font_size s' = font_size s
     \<and> font_weight s' = font_weight s \<and> theme_mode s' = theme_mode s
     \<and> text_content s' = plain_text ta
     \<and> show_debug s' = show_debug s \<and> always_on_top s' = always_on_top s"
proof -
  from save_settings_to_file_store [OF assms, of win st] obtain st' where
    saved: "save_settings_to_file s win st = Inr st'"
    and keys: "st' ''font_name'' = Some (font_name s)"
      "st' ''font_size'' = Some (show_int (font_size s))"
      "st' ''font_weight'' = Some (show_int w)"
      "st' ''theme_mode'' = Some (theme_mode s)"
      "st' ''text_content'' = Some (plain_text ta)"
      "st' ''show_debug'' = Some (if show_debug s then ''true'' else ''false'')"
      "st' ''always_on_top'' = Some (if always_on_top s then ''true'' else ''false'')"
    by blast
  have size: "py_int (QSettings_value st' ''font_size'' (PyInt 16)) = Inr (font_size s)"
    using keys(2) by (rule read_back_int)
  have weight: "py_int (QSettings_value st' ''font_weight'' (PyInt QFont_Weight_Normal)) = Inr w"
    using keys(3) by (rule read_back_int)
  from load_settings_result [OF size weight, of fresh] obtain s' where
    loaded: "load_settings fresh st' = Inr s'"
    and fields: "font_name s' = QSettings_value_str st' ''font_name'' ''Arial''"
      "font_size s' = font_size s" "font_weight s' = Some w"
      "theme_mode s' = QSettings_value_str st' ''theme_mode'' ''Dark''"
      "text_content s' = QSettings_value_str st' ''text_content'' []"
      "show_debug s' = (st' ''show_debug'' = Some ''true'')"
      "always_on_top s' = (st' ''always_on_top'' = Some ''true'')"
    by blast
  have "font_name s' = font_name s" "theme_mode s' = theme_mode s"
    "text_content s' = plain_text ta"
    using fields keys by (simp_all add: read_back_str)
  moreover have "show_debug s' = show_debug s" "always_on_top s' = always_on_top s"
    using fields(6,7) keys(6,7) by simp_all
  ultimately show ?thesis
    using saved loaded fields(2,3) assms(1) by simp
qed

theorem save_then_load_round_trip_witness:
  "\<exists>st' s'. save_settings_to_file
       (default_app\<lparr>font_size := 24, font_weight := Some 700, theme_mode := ''Light'',
                    always_on_top := True,
                    text_area := Some \<lparr>plain_text = ''notes'', te_font = None\<rparr>\<rparr>)
       \<lparr>geometry_blob = ''g'', state_blob = ''w''\<rparr> (map_of []) = Inr st'
     \<and> load_settings default_app st' = Inr s'
     \<and> font_name s' = ''Arial'' \<and> font_size s' = 24 \<and> font_weight s' = Some 700
     \<and> theme_mode s' = ''Light'' \<and> text_content s' = ''notes''
     \<and> show_debug s' = False \<and> always_on_top s' = True"
  using save_then_load_round_trip
    [of "default_app\<lparr>font_size := 24, font_weight := Some 700, theme_mode := ''Light'',
                    always_on_top := True,
                    text_area := Some \<lparr>plain_text = ''notes'', te_font = None\<rparr>\<rparr>"
        700 "\<lparr>plain_text = ''notes'', te_font = None\<rparr>"
        "\<lparr>geometry_blob = ''g'', state_blob = ''w''\<rparr>" "map_of []" default_app]
  by (simp add: default_app_def)

subsection \<open>Start-up\<close>

lemma apply_theme_None_cases:
  "apply_theme s None =
     (if theme_mode s = ''Dark'' then set_console_style (s\<lparr>style_sheet := DarkWindowStyle\<rparr>) DarkConsoleStyle
      else if theme_mode s = ''Light'' then
        set_console_style (s\<lparr>style_sheet := LightWindowStyle\<rparr>) LightConsoleStyle
      else set_console_style
        ((log_debug s (''Unknown Theme '' @ quote @ theme_mode s @ quote @
                        '' set, Defaulting To Dark Theme''))\<lparr>theme_mode := ''Dark'', style_sheet := DarkWindowStyle\<rparr>)
        DarkConsoleStyle)"
  by (simp add: apply_theme_def apply_theme_count_Dark apply_theme_count_Light
      apply_theme_count_unknown)

lemma apply_theme_None_fields [simp]:
  "theme_mode (apply_theme s None) = (if valid_theme (theme_mode s) then theme_mode s else ''Dark'')"
  "font_name (apply_theme s None) = font_name s"
  "font_size (apply_theme s None) = font_size s"
  "font_weight (apply_theme s None) = font_weight s"
  "text_content (apply_theme s None) = text_content s"
  "show_debug (apply_theme s None) = show_debug s"
  "always_on_top (apply_theme s None) = always_on_top s"
  "settings_dialog_geometry (apply_theme s None) = settings_dialog_geometry s"
  "text_area (apply_theme s None) = text_area s"
  "debug_dock (apply_theme s None) = debug_dock s"
  "geometry (apply_theme s None) = geometry s"
  "window_state (apply_theme s None) = window_state s"
  "Option.is_none (debug_console (apply_theme s None)) = Option.is_none (debug_console s)"
  by (simp_all add: apply_theme_None_cases valid_theme_def)

lemma apply_theme_None_style:
  "style_sheet (apply_theme s None) =
     (if theme_mode s = ''Light'' then LightWindowStyle else DarkWindowStyle)"
  by (simp add: apply_theme_None_cases)

lemma apply_font_result:
  assumes "text_area s = Some ta"
  shows "\<exists>s'. apply_font s = Inr s'
     \<and> text_area s' = Some (ta\<lparr>te_font := Some \<lparr>family = font_name s, point_size = font_size s,
                                                 weight = font_weight s\<rparr>\<rparr>)
     \<and> theme_mode s' = theme_mode s \<and> font_name s' = font_name s \<and> font_size s' = font_size s
     \<and> font_weight s' = font_weight s \<and> text_content s' = text_content s
     \<and> show_debug s' = show_debug s \<and> always_on_top s' = always_on_top s
     \<and> settings_dialog_geometry s' = settings_dialog_geometry s
     \<and> debug_dock s' = debug_dock s \<and> geometry s' = geometry s
     \<and> window_state s' = window_state s \<and> style_sheet s' = style_sheet s
     \<and> Option.is_none (debug_console s') = Option.is_none (debug_console s)
     \<and> map_option pte_style (debug_console s') = map_option pte_style (debug_console s)"
  using assms by (simp add: apply_font_def)

lemma set_window_icon_fields [simp]:
  "theme_mode (set_window_icon s i) = theme_mode s"
  "font_name (set_window_icon s i) = font_name s"
  "font_size (set_window_icon s i) = font_size s"
  "font_weight (set_window_icon s i) = font_weight s"
  "text_content (set_window_icon s i) = text_content s"
  "show_debug (set_window_icon s i) = show_debug s"
  "always_on_top (set_window_icon s i) = always_on_top s"
  "settings_dialog_geometry (set_window_icon s i) = settings_dialog_geometry s"
  "text_area (set_window_icon s i) = text_area s"
  "debug_dock (set_window_icon s i) = debug_dock s"
  "geometry (set_window_icon s i) = geometry s"
  "window_state (set_window_icon s i) = window_state s"
  "Option.is_none (debug_console (set_window_icon s i)) = Option.is_none (debug_console s)"
  by (simp_all add: set_window_icon_def split: option.splits)

lemma init_debug_console_fields [simp]:
  "theme_mode (init_debug_console s) = theme_mode s"
  "font_name (init_debug_console s) = font_name s"
  "font_size (init_debug_console s) = font_size s"
  "font_weight (init_debug_console s) = font_weight s"
  "text_content (init_debug_console s) = text_content s"
  "show_debug (init_debug_console s) = show_debug s"
  "always_on_top (init_debug_console s) = always_on_top s"
  "settings_dialog_geometry (init_debug_console s) = settings_dialog_geometry s"
  "text_area (init_debug_console s) = text_area s"
  "geometry (init_debug_console s) = geometry s"
  "window_state (init_debug_console s) = window_state s"
  "style_sheet (init_debug_console s) = style_sheet s"
  "Option.is_none (debug_console (init_debug_console s)) = False"
  "Option.is_none (debug_dock (init_debug_console s)) = False"
  by (simp_all add: init_debug_console_def Let_def)

lemma set_always_on_top_fields [simp]:
  "theme_mode (set_always_on_top s b) = theme_mode s"
  "font_name (set_always_on_top s b) = font_name s"
  "font_size (set_always_on_top s b) = font_size s"
  "font_weight (set_always_on_top s b) = font_weight s"
  "text_content (set_always_on_top s b) = text_content s"
  "show_debug (set_always_on_top s b) = show_debug s"
  "always_on_top (set_always_on_top s b) = b"
  "settings_dialog_geometry (set_always_on_top s b) = settings_dialog_geometry s"
  "text_area (set_always_on_top s b) = text_area s"
  "debug_dock (set_always_on_top s b) = debug_dock s"
  "geometry (set_always_on_top s b) = geometry s"
  "window_state (set_always_on_top s b) = window_state s"
  "style_sheet (set_always_on_top s b) = style_sheet s"
  "Option.is_none (debug_console (set_always_on_top s b)) = Option.is_none (debug_console s)"
  "map_option pte_style (debug_console (set_always_on_top s b)) = map_option pte_style (debug_console s)"
  by (simp_all add: set_always_on_top_def Let_def)

lemma load_settings_console:
  assumes "load_settings s st = Inr s'"
  shows "Option.is_none (debug_console s') = Option.is_none (debug_console s)"
    and "debug_dock s' = debug_dock s"
  using assms by (auto simp: load_settings_def split: sum.splits)

lemma init_result:
  assumes "load_settings default_app st = Inr s1"
  shows "\<exists>a. init icon_file st = Inr a
     \<and> theme_mode a = (if valid_theme (theme_mode s1) then theme_mode s1 else ''Dark'')
     \<and> font_name a = font_name s1 \<and> font_size a = font_size s1
     \<and> font_weight a = font_weight s1 \<and> text_content a = text_content s1
     \<and> show_debug a = show_debug s1 \<and> always_on_top a = always_on_top s1
     \<and> settings_dialog_geometry a = settings_dialog_geometry s1
     \<and> geometry a = geometry s1
     \<and> text_area a = Some \<lparr>plain_text = text_content s1,
                             te_font = Some \<lparr>family = font_name s1, point_size = font_size s1,
                                              weight = font_weight s1\<rparr>\<rparr>
     \<and> Option.is_none (debug_console a) = (\<not> show_debug s1)
     \<and> Option.is_none (debug_dock a) = (\<not> show_debug s1)
     \<and> style_sheet a = (if theme_mode s1 = ''Light'' then LightWindowStyle else DarkWindowStyle)"
proof -
  have fresh: "Option.is_none (debug_console s1)" "debug_dock s1 = None"
    using load_settings_console [OF assms] by (simp_all add: default_app_def)
  define s3 where "s3 = set_window_icon (log_debug s1 ''Application initialized'') icon_file"
  define s4 where "s4 = (if show_debug s3 then
                       log_debug (log_debug (init_debug_console s3) ''Application started'')
                         (''Current Theme: '' @
                          theme_mode (log_debug (init_debug_console s3) ''Application started''))
                     else s3)"
  define s6 where "s6 = setup_ui (apply_theme s4 None)"
  have s3: "theme_mode s3 = theme_mode s1" "font_name s3 = font_name s1"
    "font_size s3 = font_size s1" "font_weight s3 = font_weight s1"
    "text_content s3 = text_content s1" "show_debug s3 = show_debug s1"
    "always_on_top s3 = always_on_top s1"
    "settings_dialog_geometry s3 = settings_dialog_geometry s1" "geometry s3 = geometry s1"
    "Option.is_none (debug_console s3)" "Option.is_none (debug_dock s3)"
    by (simp_all add: s3_def fresh)
  have s4: "theme_mode s4 = theme_mode s1" "font_name s4 = font_name s1"
    "font_size s4 = font_size s1" "font_weight s4 = font_weight s1"
    "text_content s4 = text_content s1" "show_debug s4 = show_debug s1"
    "always_on_top s4 = always_on_top s1"
    "settings_dialog_geometry s4 = settings_dialog_geometry s1" "geometry s4 = geometry s1"
    "Option.is_none (debug_console s4) = (\<not> show_debug s1)"
    "Option.is_none (debug_dock s4) = (\<not> show_debug s1)"
    using s3 by (simp_all add: s4_def Let_def)
  have s6: "theme_mode s6 = (if valid_theme (theme_mode s1) then theme_mode s1 else ''Dark'')"
    "font_name s6 = font_name s1"
    "font_size s6 = font_size s1" "font_weight s6 = font_weight s1"
    "text_content s6 = text_content s1" "show_debug s6 = show_debug s1"
    "always_on_top s6 = always_on_top s1"
    "settings_dialog_geometry s6 = settings_dialog_geometry s1" "geometry s6 = geometry s1"
    "Option.is_none (debug_console s6) = (\<not> show_debug s1)"
    "Option.is_none (debug_dock s6) = (\<not> show_debug s1)"
    "text_area s6 = Some \<lparr>plain_text = [], te_font = None\<rparr>"
    "style_sheet s6 = (if theme_mode s1 = ''Light'' then LightWindowStyle else DarkWindowStyle)"
    using s4 by (simp_all add: s6_def setup_ui_def apply_theme_None_style)
  from apply_font_result [OF s6(12)] obtain s7 where
    s7: "apply_font s6 = Inr s7"
      "text_area s7 = Some (\<lparr>plain_text = [], te_font = None\<rparr>\<lparr>te_font :=
          Some \<lparr>family = font_name s6, point_size = font_size s6, weight = font_weight s6\<rparr>\<rparr>)"
      "theme_mode s7 = theme_mode s6" "font_name s7 = font_name s6" "font_size s7 = font_size s6"
      "font_weight s7 = font_weight s6" "text_content s7 = text_content s6"
      "show_debug s7 = show_debug s6" "always_on_top s7 = always_on_top s6"
      "settings_dialog_geometry s7 = settings_dialog_geometry s6"
      "debug_dock s7 = debug_dock s6" "geometry s7 = geometry s6"
      "Option.is_none (debug_console s7) = Option.is_none (debug_console s6)"
      "style_sheet s7 = style_sheet s6"
    by (elim exE conjE)
  have "init icon_file st =
      (case apply_font s6 of
         Inl e \<Rightarrow> Inl e
       | Inr s7 \<Rightarrow>
           (case text_area s7 of
              None \<Rightarrow> Inl AttributeError
            | Some ta \<Rightarrow>
                Inr (set_always_on_top (s7\<lparr>text_area := Some (ta\<lparr>plain_text := text_content s7\<rparr>)\<rparr>)
                       (always_on_top (s7\<lparr>text_area := Some (ta\<lparr>plain_text := text_content s7\<rparr>)\<rparr>)))))"
    unfolding init_def Let_def s6_def s4_def s3_def assms sum.case ..
  then have "init icon_file st =
      Inr (set_always_on_top
             (s7\<lparr>text_area := Some \<lparr>plain_text = text_content s7, te_font = Some \<lparr>family = font_name s6,
                 point_size = font_size s6, weight = font_weight s6\<rparr>\<rparr>\<rparr>)
             (always_on_top s7))"
    using s7(1,2) by simp
  then show ?thesis
    using s7(3-) s6 by simp
qed

subsection \<open>A first start, and a session that leaves the settings dialog\<close>

lemma load_settings_empty_store:
  "load_settings default_app (\<lambda>k. None) =
     Inr (default_app\<lparr>font_weight := Some QFont_Weight_Normal,
                      settings_dialog_geometry := Some None,
                      geometry := Rect 100 100 800 600\<rparr>)"
  by (simp add: load_settings_def QSettings_value_def QSettings_value_str_def
      log_loaded_settings_def restore_window_def log_debug_def default_app_def)

lemma init_empty_store:
  "init icon_file (\<lambda>k. None) =
     Inr \<lparr>debug_console = None, debug_dock = None, font_name = ''Arial'', font_size = 16,
          font_weight = Some QFont_Weight_Normal, theme_mode = ''Dark'', text_content = [],
          show_debug = False, always_on_top = False, settings_dialog_geometry = Some None,
          text_area = Some \<lparr>plain_text = [],
                              te_font = Some \<lparr>family = ''Arial'', point_size = 16,
                                               weight = Some QFont_Weight_Normal\<rparr>\<rparr>,
          style_sheet = DarkWindowStyle, geometry = Rect 100 100 800 600, window_state = None,
          window_icon = Some (case icon_file of None \<Rightarrow> StandardDesktopIcon | Some p \<Rightarrow> IconFile p),
          stays_on_top_hint = False, shown = True\<rparr>"
  unfolding init_def load_settings_empty_store
  by (simp add: default_app_def log_debug_def set_window_icon_def
      apply_theme_None_cases set_console_style_def setup_ui_def apply_font_def
      set_always_on_top_def split: option.splits)

text \<open>
  Claim C1 as the specification words it fails for the text content. On a first start
  the user types \<open>new\<close>, opens the settings dialog and closes it: \<open>close_event\<close> saves,
  the window's \<open>text_content\<close> is still empty (only the main window's \<open>closeEvent\<close>
  refreshes it), and a fresh process loads \<open>new\<close> from the store.
\<close>

theorem text_content_not_reproduced:
  "field_after text_content
     (window_after (running None (map_of [])
        [TextEdited ''new'', SettingsDiscarded [] ''G'' \<lparr>geometry_blob = ''g'', state_blob = ''w''\<rparr>]))
     = Some []
   \<and> field_after text_content
     (fresh_process (running None (map_of [])
        [TextEdited ''new'', SettingsDiscarded [] ''G'' \<lparr>geometry_blob = ''g'', state_blob = ''w''\<rparr>]))
     = Some ''new''"
proof -
  define evs where "evs =
    [TextEdited ''new'', SettingsDiscarded [] ''G'' \<lparr>geometry_blob = ''g'', state_blob = ''w''\<rparr>]"
  have "\<exists>a st. running None (map_of []) evs = Inr (a, st)
      \<and> text_content a = [] \<and> st ''text_content'' = Some ''new''
      \<and> st ''font_size'' = Some (show_int 16)
      \<and> st ''font_weight'' = Some (show_int QFont_Weight_Normal)"
    by (simp add: evs_def running_def init_empty_store open_settings_def close_event_def
        save_settings_to_file_def setValue_def Let_def)
  then obtain a st where r: "running None (map_of []) evs = Inr (a, st)"
    and a: "text_content a = []" and st: "st ''text_content'' = Some ''new''"
    and ints: "st ''font_size'' = Some (show_int 16)"
      "st ''font_weight'' = Some (show_int QFont_Weight_Normal)"
    by blast
  have size: "py_int (QSettings_value st ''font_size'' (PyInt 16)) = Inr 16"
    using ints(1) by (rule read_back_int)
  have weight: "py_int (QSettings_value st ''font_weight'' (PyInt QFont_Weight_Normal)) =
      Inr QFont_Weight_Normal"
    using ints(2) by (rule read_back_int)
  from load_settings_result [OF size weight, of default_app]
  obtain s' where "load_settings default_app st = Inr s'"
    and "text_content s' = QSettings_value_str st ''text_content'' []"
    by blast
  then have "field_after text_content (fresh_process (running None (map_of []) evs)) = Some ''new''"
    using r st by (simp add: field_after_def fresh_process_def read_back_str)
  moreover have "field_after text_content (window_after (running None (map_of []) evs)) = Some []"
    using r a by (simp add: field_after_def window_after_def)
  ultimately show ?thesis
    unfolding evs_def by simp
qed

subsection \<open>Stores that can and cannot be loaded\<close>


lemma load_settings_defaults:
  assumes "int_or_absent st ''font_size''" and "int_or_absent st ''font_weight''"
  shows "\<exists>s'. load_settings s st = Inr s'
     \<and> (st ''font_name'' = None \<longrightarrow> font_name s' = ''Arial'')
     \<and> (st ''font_size'' = None \<longrightarrow> font_size s' = 16)
     \<and> (st ''font_weight'' = None \<longrightarrow> font_weight s' = Some QFont_Weight_Normal)
     \<and> (st ''theme_mode'' = None \<longrightarrow> theme_mode s' = ''Dark'')
     \<and> (st ''text_content'' = None \<longrightarrow> text_content s' = [])
     \<and> (st ''show_debug'' = None \<longrightarrow> \<not> show_debug s')
     \<and> (st ''always_on_top'' = None \<longrightarrow> \<not> always_on_top s')
     \<and> (st ''window_geometry'' = None \<longrightarrow> geometry s' = Rect 100 100 800 600)"
proof -
  from int_or_absent_read [OF assms(1), of 16] obtain n where
    n: "py_int (QSettings_value st ''font_size'' (PyInt 16)) = Inr n"
      "st ''font_size'' = None \<longrightarrow> n = 16"
    by auto
  from int_or_absent_read [OF assms(2), of QFont_Weight_Normal] obtain w where
    w: "py_int (QSettings_value st ''font_weight'' (PyInt QFont_Weight_Normal)) = Inr w"
      "st ''font_weight'' = None \<longrightarrow> w = QFont_Weight_Normal"
    by auto
  from load_settings_result [OF n(1) w(1), of s] obtain s' where
    "load_settings s st = Inr s'"
    "font_name s' = QSettings_value_str st ''font_name'' ''Arial''"
    "font_size s' = n" "font_weight s' = Some w"
    "theme_mode s' = QSettings_value_str st ''theme_mode'' ''Dark''"
    "text_content s' = QSettings_value_str st ''text_content'' []"
    "show_debug s' = (st ''show_debug'' = Some ''true'')"
    "always_on_top s' = (st ''always_on_top'' = Some ''true'')"
    "geometry s' = (case st ''window_geometry'' of None \<Rightarrow> Rect 100 100 800 600
                       | Some g \<Rightarrow> if g \<noteq> [] then RestoredGeometry g else Rect 100 100 800 600)"
    by (elim exE conjE)
  then show ?thesis
    using n(2) w(2) by (simp add: QSettings_value_str_def)
qed




text \<open>
  Claim C9. On a store that holds nothing, start-up succeeds and leaves the window at
  (100,100) with size 800 by 600, theme Dark with the Dark style sheet, the font Arial,
  size 16, weight Normal, set on the text area, no debug console and no dock for it,
  the debug flag off, always-on-top off, and the window shown.
\<close>

theorem fresh_start_defaults:
  "\<exists>a. init icon_file (\<lambda>key. None) = Inr a
     \<and> geometry a = Rect 100 100 800 600
     \<and> theme_mode a = ''Dark'' \<and> style_sheet a = DarkWindowStyle
     \<and> font_name a = ''Arial'' \<and> font_size a = 16
     \<and> font_weight a = Some QFont_Weight_Normal
     \<and> text_area a = Some \<lparr>plain_text = [],
                              te_font = Some \<lparr>family = ''Arial'', point_size = 16,
                                               weight = Some QFont_Weight_Normal\<rparr>\<rparr>
     \<and> \<not> show_debug a \<and> debug_console a = None \<and> debug_dock a = None
     \<and> \<not> always_on_top a \<and> \<not> stays_on_top_hint a \<and> shown a"
  by (simp add: init_empty_store)

subsection \<open>The handlers that save\<close>

lemma open_settings_result:
  assumes "font_weight s = Some w"
  shows "\<exists>dlg s1. open_settings s = Inr (dlg, s1)
     \<and> theme_mode s1 = theme_mode s \<and> font_name s1 = font_name s \<and> font_size s1 = font_size s
     \<and> font_weight s1 = font_weight s \<and> always_on_top s1 = always_on_top s
     \<and> show_debug s1 = show_debug s \<and> text_content s1 = text_content s
     \<and> text_area s1 = text_area s \<and> debug_dock s1 = debug_dock s
     \<and> settings_dialog_geometry s1 = settings_dialog_geometry s
     \<and> Option.is_none (debug_console s1) = Option.is_none (debug_console s)
     \<and> minimum (size_spin dlg) = 8 \<and> maximum (size_spin dlg) = 72
     \<and> spin_value (size_spin dlg) = max 8 (min 72 (font_size s))
     \<and> theme_checked_id dlg = (if theme_mode s = ''Light'' then 2 else 1)
     \<and> font_combo dlg = font_name s \<and> aot_checkbox dlg = always_on_top s
     \<and> debug_checkbox dlg = show_debug s
     \<and> weight_combo dlg = (if findData weight_items w \<ge> 0 then w else QFont_Weight_Normal)"
  using assms
  by (simp add: open_settings_def Let_def update_preview_def QSpinBox_def QSpinBox_setRange_def
      QSpinBox_setValue_def weight_items_def)

lemma close_event_result:
  assumes "font_weight s = Some w" and "text_area s = Some ta"
  shows "\<exists>st'. close_event s dlg_blob win st =
            Inr (s\<lparr>settings_dialog_geometry := Some (Some dlg_blob)\<rparr>, st')
     \<and> st' ''font_name'' = Some (font_name s)
     \<and> st' ''font_size'' = Some (show_int (font_size s))
     \<and> st' ''font_weight'' = Some (show_int w)
     \<and> st' ''theme_mode'' = Some (theme_mode s)
     \<and> st' ''text_content'' = Some (plain_text ta)
     \<and> st' ''window_geometry'' = Some (geometry_blob win)
     \<and> st' ''window_state'' = Some (state_blob win)
     \<and> st' ''show_debug'' = Some (if show_debug s then ''true'' else ''false'')
     \<and> st' ''always_on_top'' = Some (if always_on_top s then ''true'' else ''false'')
     \<and> st' ''settings_dialog_geometry'' = Some dlg_blob
     \<and> (\<forall>k. k \<notin> set [''font_name'', ''font_size'', ''font_weight'', ''theme_mode'',
                       ''text_content'', ''window_geometry'', ''window_state'', ''show_debug'',
                       ''always_on_top'', ''settings_dialog_geometry''] \<longrightarrow> st' k = st k)"
proof -
  define s1 where "s1 = s\<lparr>settings_dialog_geometry := Some (Some dlg_blob)\<rparr>"
  have "font_weight s1 = Some w" "text_area s1 = Some ta"
    using assms by (simp_all add: s1_def)
  from save_settings_to_file_store [OF this, of win st] obtain st' where
    "save_settings_to_file s1 win st = Inr st'
     \<and> st' ''font_name'' = Some (font_name s1)
     \<and> st' ''font_size'' = Some (show_int (font_size s1))
     \<and> st' ''font_weight'' = Some (show_int w)
     \<and> st' ''theme_mode'' = Some (theme_mode s1)
     \<and> st' ''text_content'' = Some (plain_text ta)
     \<and> st' ''window_geometry'' = Some (geometry_blob win)
     \<and> st' ''window_state'' = Some (state_blob win)
     \<and> st' ''show_debug'' = Some (if show_debug s1 then ''true'' else ''false'')
     \<and> st' ''always_on_top'' = Some (if always_on_top s1 then ''true'' else ''false'')
     \<and> st' ''settings_dialog_geometry'' =
          (case settings_dialog_geometry s1 of None \<Rightarrow> st ''settings_dialog_geometry'' | Some g \<Rightarrow> g)
     \<and> (\<forall>k. k \<notin> set [''font_name'', ''font_size'', ''font_weight'', ''theme_mode'',
                       ''text_content'', ''window_geometry'', ''window_state'', ''show_debug'',
                       ''always_on_top'', ''settings_dialog_geometry''] \<longrightarrow> st' k = st k)"
    ..
  then show ?thesis
    unfolding close_event_def Let_def s1_def [symmetric]
    by (intro exI [of _ st']) (simp add: s1_def)
qed

subsection \<open>\<open>save_settings\<close>\<close>

lemma get_theme_selection_fields [simp]:
  "theme_mode (get_theme_selection s dlg) = (if theme_checked_id dlg = 2 then ''Light'' else ''Dark'')"
  "font_name (get_theme_selection s dlg) = font_name s"
  "font_size (get_theme_selection s dlg) = font_size s"
  "font_weight (get_theme_selection s dlg) = font_weight s"
  "text_content (get_theme_selection s dlg) = text_content s"
  "show_debug (get_theme_selection s dlg) = show_debug s"
  "always_on_top (get_theme_selection s dlg) = always_on_top s"
  "settings_dialog_geometry (get_theme_selection s dlg) = settings_dialog_geometry s"
  "text_area (get_theme_selection s dlg) = text_area s"
  by (simp_all add: get_theme_selection_def Let_def)

lemma get_font_selection_fields [simp]:
  "theme_mode (get_font_selection s dlg) = theme_mode s"
  "font_name (get_font_selection s dlg) = font_combo dlg"
  "font_size (get_font_selection s dlg) = spin_value (size_spin dlg)"
  "font_weight (get_font_selection s dlg) = Some (weight_combo dlg)"
  "text_content (get_font_selection s dlg) = text_content s"
  "show_debug (get_font_selection s dlg) = show_debug s"
  "always_on_top (get_font_selection s dlg) = always_on_top s"
  "settings_dialog_geometry (get_font_selection s dlg) = settings_dialog_geometry s"
  "text_area (get_font_selection s dlg) = text_area s"
  by (simp_all add: get_font_selection_def Let_def)

lemma get_always_on_top_setting_fields [simp]:
  "theme_mode (get_always_on_top_setting s dlg) = theme_mode s"
  "font_name (get_always_on_top_setting s dlg) = font_name s"
  "font_size (get_always_on_top_setting s dlg) = font_size s"
  "font_weight (get_always_on_top_setting s dlg) = font_weight s"
  "text_content (get_always_on_top_setting s dlg) = text_content s"
  "show_debug (get_always_on_top_setting s dlg) = show_debug s"
  "always_on_top (get_always_on_top_setting s dlg) = aot_checkbox dlg"
  "settings_dialog_geometry (get_always_on_top_setting s dlg) = settings_dialog_geometry s"
  "text_area (get_always_on_top_setting s dlg) = text_area s"
  by (auto simp add: get_always_on_top_setting_def Let_def)

lemma get_debug_setting_fields [simp]:
  "theme_mode (get_debug_setting s b c) = theme_mode s"
  "font_name (get_debug_setting s b c) = font_name s"
  "font_size (get_debug_setting s b c) = font_size s"
  "font_weight (get_debug_setting s b c) = font_weight s"
  "text_content (get_debug_setting s b c) = text_content s"
  "show_debug (get_debug_setting s b c) = b"
  "always_on_top (get_debug_setting s b c) = always_on_top s"
  "settings_dialog_geometry (get_debug_setting s b c) = settings_dialog_geometry s"
  "text_area (get_debug_setting s b c) = text_area s"
  by (simp_all add: get_debug_setting_def Let_def)

lemma handle_debug_console_visibility_fields [simp]:
  "theme_mode (handle_debug_console_visibility s c) = theme_mode s"
  "font_name (handle_debug_console_visibility s c) = font_name s"
  "font_size (handle_debug_console_visibility s c) = font_size s"
  "font_weight (handle_debug_console_visibility s c) = font_weight s"
  "text_content (handle_debug_console_visibility s c) = text_content s"
  "show_debug (handle_debug_console_visibility s c) = show_debug s"
  "always_on_top (handle_debug_console_visibility s c) = always_on_top s"
  "settings_dialog_geometry (handle_debug_console_visibility s c) = settings_dialog_geometry s"
  "text_area (handle_debug_console_visibility s c) = text_area s"
  by (simp_all add: handle_debug_console_visibility_def split: option.splits)

lemma force_update_debug_console_theme_fields [simp]:
  "theme_mode (force_update_debug_console_theme s) = theme_mode s"
  "font_name (force_update_debug_console_theme s) = font_name s"
  "font_size (force_update_debug_console_theme s) = font_size s"
  "font_weight (force_update_debug_console_theme s) = font_weight s"
  "text_content (force_update_debug_console_theme s) = text_content s"
  "show_debug (force_update_debug_console_theme s) = show_debug s"
  "always_on_top (force_update_debug_console_theme s) = always_on_top s"
  "settings_dialog_geometry (force_update_debug_console_theme s) = settings_dialog_geometry s"
  "text_area (force_update_debug_console_theme s) = text_area s"
  by (simp_all add: force_update_debug_console_theme_def)

lemma save_settings_result:
  assumes "text_area s = Some ta"
  shows "\<exists>s' st'. save_settings s dlg dlg_blob win st = Inr (s', st')
     \<and> theme_mode s' = (if theme_checked_id dlg = 2 then ''Light'' else ''Dark'')
     \<and> font_name s' = font_combo dlg
     \<and> font_size s' = spin_value (size_spin dlg)
     \<and> font_weight s' = Some (weight_combo dlg)
     \<and> always_on_top s' = aot_checkbox dlg
     \<and> show_debug s' = debug_checkbox dlg
     \<and> text_content s' = text_content s
     \<and> settings_dialog_geometry s' = Some (Some dlg_blob)
     \<and> text_area s' = Some (ta\<lparr>te_font := Some \<lparr>family = font_combo dlg,
                                                  point_size = spin_value (size_spin dlg),
                                                  weight = Some (weight_combo dlg)\<rparr>\<rparr>)
     \<and> st' ''font_name'' = Some (font_combo dlg)
     \<and> st' ''font_size'' = Some (show_int (spin_value (size_spin dlg)))
     \<and> st' ''font_weight'' = Some (show_int (weight_combo dlg))
     \<and> st' ''theme_mode'' = Some (if theme_checked_id dlg = 2 then ''Light'' else ''Dark'')
     \<and> st' ''text_content'' = Some (plain_text ta)
     \<and> st' ''window_geometry'' = Some (geometry_blob win)
     \<and> st' ''window_state'' = Some (state_blob win)
     \<and> st' ''show_debug'' = Some (if debug_checkbox dlg then ''true'' else ''false'')
     \<and> st' ''always_on_top'' = Some (if aot_checkbox dlg then ''true'' else ''false'')
     \<and> st' ''settings_dialog_geometry'' = Some dlg_blob
     \<and> (\<forall>k. k \<notin> set [''font_name'', ''font_size'', ''font_weight'', ''theme_mode'',
                       ''text_content'', ''window_geometry'', ''window_state'', ''show_debug'',
                       ''always_on_top'', ''settings_dialog_geometry''] \<longrightarrow> st' k = st k)"
proof -
  define s4 where "s4 = get_always_on_top_setting
      (get_font_selection
         (get_theme_selection (s\<lparr>settings_dialog_geometry := Some (Some dlg_blob)\<rparr>) dlg) dlg) dlg"
  define changed where "changed = (debug_checkbox dlg \<noteq> show_debug s4)"
  define s6 where "s6 = apply_theme (get_debug_setting s4 (debug_checkbox dlg) changed) None"
  define font where "font = \<lparr>family = font_combo dlg, point_size = spin_value (size_spin dlg),
                             weight = Some (weight_combo dlg)\<rparr>"
  have s6: "theme_mode s6 = (if theme_checked_id dlg = 2 then ''Light'' else ''Dark'')"
    "font_name s6 = font_combo dlg" "font_size s6 = spin_value (size_spin dlg)"
    "font_weight s6 = Some (weight_combo dlg)" "always_on_top s6 = aot_checkbox dlg"
    "show_debug s6 = debug_checkbox dlg" "text_content s6 = text_content s"
    "settings_dialog_geometry s6 = Some (Some dlg_blob)" "text_area s6 = Some ta"
    using assms by (simp_all add: s6_def s4_def valid_theme_def)
  from apply_font_result [OF s6(9)] obtain s7 where
    s7: "apply_font s6 = Inr s7"
    and t7: "text_area s7 = Some (ta\<lparr>te_font := Some \<lparr>family = font_name s6,
                point_size = font_size s6, weight = font_weight s6\<rparr>\<rparr>)"
    and f7: "theme_mode s7 = theme_mode s6" "font_name s7 = font_name s6"
      "font_size s7 = font_size s6" "font_weight s7 = font_weight s6"
      "text_content s7 = text_content s6" "show_debug s7 = show_debug s6"
      "always_on_top s7 = always_on_top s6"
      "settings_dialog_geometry s7 = settings_dialog_geometry s6"
    by (elim exE conjE)
  define s9 where "s9 = force_update_debug_console_theme (handle_debug_console_visibility s7 changed)"
  have s9: "theme_mode s9 = (if theme_checked_id dlg = 2 then ''Light'' else ''Dark'')"
    "font_name s9 = font_combo dlg" "font_size s9 = spin_value (size_spin dlg)"
    "font_weight s9 = Some (weight_combo dlg)" "always_on_top s9 = aot_checkbox dlg"
    "show_debug s9 = debug_checkbox dlg" "text_content s9 = text_content s"
    "settings_dialog_geometry s9 = Some (Some dlg_blob)"
    "text_area s9 = Some (ta\<lparr>te_font := Some font\<rparr>)"
    using s6 t7 f7 by (simp_all add: s9_def font_def)
  from save_settings_to_file_store [OF s9(4) s9(9), of win st] obtain st1 where
    st1: "save_settings_to_file s9 win st = Inr st1"
    and other1: "\<forall>k. k \<notin> set [''font_name'', ''font_size'', ''font_weight'', ''theme_mode'',
                       ''text_content'', ''window_geometry'', ''window_state'', ''show_debug'',
                       ''always_on_top'', ''settings_dialog_geometry''] \<longrightarrow> st1 k = st k"
    by (elim exE conjE)
  define s10 where "s10 = log_debug s9 ''Settings Saved.''"
  have s10: "font_weight s10 = Some (weight_combo dlg)"
    "text_area s10 = Some (ta\<lparr>te_font := Some font\<rparr>)"
    using s9 by (simp_all add: s10_def)
  from close_event_result [OF s10, of dlg_blob win st1] obtain st' where
    fin: "close_event s10 dlg_blob win st1 =
            Inr (s10\<lparr>settings_dialog_geometry := Some (Some dlg_blob)\<rparr>, st')"
    and keys: "st' ''font_name'' = Some (font_name s10)"
     "st' ''font_size'' = Some (show_int (font_size s10))"
     "st' ''font_weight'' = Some (show_int (weight_combo dlg))"
     "st' ''theme_mode'' = Some (theme_mode s10)"
     "st' ''text_content'' = Some (plain_text (ta\<lparr>te_font := Some font\<rparr>))"
     "st' ''window_geometry'' = Some (geometry_blob win)"
     "st' ''window_state'' = Some (state_blob win)"
     "st' ''show_debug'' = Some (if show_debug s10 then ''true'' else ''false'')"
     "st' ''always_on_top'' = Some (if always_on_top s10 then ''true'' else ''false'')"
     "st' ''settings_dialog_geometry'' = Some dlg_blob"
    and other: "\<forall>k. k \<notin> set [''font_name'', ''font_size'', ''font_weight'', ''theme_mode'',
                       ''text_content'', ''window_geometry'', ''window_state'', ''show_debug'',
                       ''always_on_top'', ''settings_dialog_geometry''] \<longrightarrow> st' k = st1 k"
    by (elim exE conjE)
  have "save_settings s dlg dlg_blob win st =
      (case apply_font s6 of
         Inl e \<Rightarrow> Inl e
       | Inr s7 \<Rightarrow>
           (case save_settings_to_file
                   (force_update_debug_console_theme (handle_debug_console_visibility s7 changed))
                   win st of
              Inl e \<Rightarrow> Inl e
            | Inr st1 \<Rightarrow>
                close_event
                  (log_debug
                     (force_update_debug_console_theme (handle_debug_console_visibility s7 changed))
                     ''Settings Saved.'')
                  dlg_blob win st1))"
    unfolding save_settings_def Let_def s6_def changed_def s4_def ..
  then have run: "save_settings s dlg dlg_blob win st =
      Inr (s10\<lparr>settings_dialog_geometry := Some (Some dlg_blob)\<rparr>, st')"
    using s7 st1 fin by (simp add: s9_def [symmetric] s10_def [symmetric])
  have frame: "\<forall>k. k \<notin> set [''font_name'', ''font_size'', ''font_weight'', ''theme_mode'',
                       ''text_content'', ''window_geometry'', ''window_state'', ''show_debug'',
                       ''always_on_top'', ''settings_dialog_geometry''] \<longrightarrow> st' k = st k"
    using other other1 by simp
  show ?thesis
    using run keys frame s9 by (simp add: s10_def font_def)
qed

subsection \<open>The events of a session\<close>

lemma save_button_clicked_result:
  assumes "text_area s = Some ta"
  shows "\<exists>s' st'. save_button_clicked s dlg dlg_blob win st = Inr (s', st')
     \<and> theme_mode s' = (if theme_checked_id dlg = 2 then ''Light'' else ''Dark'')
     \<and> font_name s' = font_combo dlg
     \<and> font_size s' = spin_value (size_spin dlg)
     \<and> font_weight s' = Some (weight_combo dlg)
     \<and> always_on_top s' = aot_checkbox dlg
     \<and> show_debug s' = debug_checkbox dlg
     \<and> text_content s' = text_content s
     \<and> settings_dialog_geometry s' = Some (Some dlg_blob)
     \<and> text_area s' = Some (ta\<lparr>te_font := Some \<lparr>family = font_combo dlg,
                                                  point_size = spin_value (size_spin dlg),
                                                  weight = Some (weight_combo dlg)\<rparr>\<rparr>)
     \<and> st' ''font_name'' = Some (font_combo dlg)
     \<and> st' ''font_size'' = Some (show_int (spin_value (size_spin dlg)))
     \<and> st' ''font_weight'' = Some (show_int (weight_combo dlg))
     \<and> st' ''theme_mode'' = Some (if theme_checked_id dlg = 2 then ''Light'' else ''Dark'')
     \<and> st' ''text_content'' = Some (plain_text ta)
     \<and> st' ''window_geometry'' = Some (geometry_blob win)
     \<and> st' ''window_state'' = Some (state_blob win)
     \<and> st' ''show_debug'' = Some (if debug_checkbox dlg then ''true'' else ''false'')
     \<and> st' ''always_on_top'' = Some (if aot_checkbox dlg then ''true'' else ''false'')
     \<and> st' ''settings_dialog_geometry'' = Some dlg_blob
     \<and> (\<forall>k. k \<notin> set [''font_name'', ''font_size'', ''font_weight'', ''theme_mode'',
                       ''text_content'', ''window_geometry'', ''window_state'', ''show_debug'',
                       ''always_on_top'', ''settings_dialog_geometry''] \<longrightarrow> st' k = st k)"
proof -
  define font where "font = \<lparr>family = font_combo dlg, point_size = spin_value (size_spin dlg),
                             weight = Some (weight_combo dlg)\<rparr>"
  from save_settings_result [OF assms, of dlg dlg_blob win st] obtain s1 st1 where
    first: "save_settings s dlg dlg_blob win st = Inr (s1, st1)"
    and c1: "text_content s1 = text_content s"
    and t1: "text_area s1 = Some (ta\<lparr>te_font := Some font\<rparr>)"
    and other1: "\<forall>k. k \<notin> set [''font_name'', ''font_size'', ''font_weight'', ''theme_mode'',
                       ''text_content'', ''window_geometry'', ''window_state'', ''show_debug'',
                       ''always_on_top'', ''settings_dialog_geometry''] \<longrightarrow> st1 k = st k"
    unfolding font_def by (elim exE conjE)
  define s2 where "s2 = s1\<lparr>settings_dialog_geometry := Some (Some dlg_blob)\<rparr>"
  have t2: "text_area s2 = Some (ta\<lparr>te_font := Some font\<rparr>)"
    using t1 by (simp add: s2_def)
  from save_settings_result [OF t2, of dlg dlg_blob win st1] obtain s' st' where
    second: "save_settings s2 dlg dlg_blob win st1 = Inr (s', st')"
    and f: "theme_mode s' = (if theme_checked_id dlg = 2 then ''Light'' else ''Dark'')"
     "font_name s' = font_combo dlg"
     "font_size s' = spin_value (size_spin dlg)"
     "font_weight s' = Some (weight_combo dlg)"
     "always_on_top s' = aot_checkbox dlg"
     "show_debug s' = debug_checkbox dlg"
     "text_content s' = text_content s2"
     "settings_dialog_geometry s' = Some (Some dlg_blob)"
     "text_area s' = Some (ta\<lparr>te_font := Some font\<rparr>\<lparr>te_font := Some font\<rparr>)"
     "st' ''font_name'' = Some (font_combo dlg)"
     "st' ''font_size'' = Some (show_int (spin_value (size_spin dlg)))"
     "st' ''font_weight'' = Some (show_int (weight_combo dlg))"
     "st' ''theme_mode'' = Some (if theme_checked_id dlg = 2 then ''Light'' else ''Dark'')"
     "st' ''text_content'' = Some (plain_text (ta\<lparr>te_font := Some font\<rparr>))"
     "st' ''window_geometry'' = Some (geometry_blob win)"
     "st' ''window_state'' = Some (state_blob win)"
     "st' ''show_debug'' = Some (if debug_checkbox dlg then ''true'' else ''false'')"
     "st' ''always_on_top'' = Some (if aot_checkbox dlg then ''true'' else ''false'')"
     "st' ''settings_dialog_geometry'' = Some dlg_blob"
    and other2: "\<forall>k. k \<notin> set [''font_name'', ''font_size'', ''font_weight'', ''theme_mode'',
                       ''text_content'', ''window_geometry'', ''window_state'', ''show_debug'',
                       ''always_on_top'', ''settings_dialog_geometry''] \<longrightarrow> st' k = st1 k"
    unfolding font_def by (elim exE conjE)
  have run: "save_button_clicked s dlg dlg_blob win st = Inr (s', st')"
    using first second by (simp add: save_button_clicked_def s2_def)
  have frame: "\<forall>k. k \<notin> set [''font_name'', ''font_size'', ''font_weight'', ''theme_mode'',
                       ''text_content'', ''window_geometry'', ''window_state'', ''show_debug'',
                       ''always_on_top'', ''settings_dialog_geometry''] \<longrightarrow> st' k = st k"
    using other1 other2 by simp
  have "text_content s' = text_content s"
    using f(7) c1 by (simp add: s2_def)
  then show ?thesis
    using run f frame by (simp add: font_def)
qed

lemma handle_debug_console_close_result:
  assumes "font_weight s = Some w" and "text_area s = Some ta"
  shows "\<exists>st'. handle_debug_console_close s win st = Inr (s\<lparr>show_debug := False\<rparr>, st')
     \<and> st' ''font_size'' = Some (show_int (font_size s))
     \<and> st' ''theme_mode'' = Some (theme_mode s)
     \<and> st' ''text_content'' = Some (plain_text ta)
     \<and> st' ''show_debug'' = Some ''false''"
proof -
  have "font_weight (s\<lparr>show_debug := False\<rparr>) = Some w" "text_area (s\<lparr>show_debug := False\<rparr>) = Some ta"
    using assms by simp_all
  from save_settings_to_file_store [OF this, of win st] obtain st' where
    "save_settings_to_file (s\<lparr>show_debug := False\<rparr>) win st = Inr st'"
    "st' ''font_size'' = Some (show_int (font_size (s\<lparr>show_debug := False\<rparr>)))"
    "st' ''theme_mode'' = Some (theme_mode (s\<lparr>show_debug := False\<rparr>))"
    "st' ''text_content'' = Some (plain_text ta)"
    "st' ''show_debug'' = Some (if show_debug (s\<lparr>show_debug := False\<rparr>) then ''true'' else ''false'')"
    by (elim exE conjE)
  then show ?thesis
    by (simp add: handle_debug_console_close_def)
qed

lemma closeEvent_result:
  assumes "font_weight s = Some w" and "text_area s = Some ta"
  shows "\<exists>st'. closeEvent s win st = Inr (s\<lparr>text_content := plain_text ta\<rparr>, st')
     \<and> st' ''font_size'' = Some (show_int (font_size s))
     \<and> st' ''theme_mode'' = Some (theme_mode s)
     \<and> st' ''text_content'' = Some (plain_text ta)"
proof -
  have "font_weight (s\<lparr>text_content := plain_text ta\<rparr>) = Some w"
    "text_area (s\<lparr>text_content := plain_text ta\<rparr>) = Some ta"
    using assms by simp_all
  from save_settings_to_file_store [OF this, of win st] obtain st' where
    "save_settings_to_file (s\<lparr>text_content := plain_text ta\<rparr>) win st = Inr st'"
    "st' ''font_size'' = Some (show_int (font_size (s\<lparr>text_content := plain_text ta\<rparr>)))"
    "st' ''theme_mode'' = Some (theme_mode (s\<lparr>text_content := plain_text ta\<rparr>))"
    "st' ''text_content'' = Some (plain_text ta)"
    by (elim exE conjE)
  then show ?thesis
    using assms(2) by (simp add: closeEvent_def)
qed

subsection \<open>What the handlers write\<close>

lemma discard_result:
  assumes "font_weight s = Some w" and "text_area s = Some ta"
  shows "\<exists>s' st'. step (s, st) (SettingsDiscarded edits dlg_blob win) = Inr (s', st')
     \<and> theme_mode s' = theme_mode s \<and> font_name s' = font_name s \<and> font_size s' = font_size s
     \<and> font_weight s' = font_weight s \<and> always_on_top s' = always_on_top s
     \<and> show_debug s' = show_debug s \<and> text_content s' = text_content s
     \<and> text_area s' = text_area s
     \<and> settings_dialog_geometry s' = Some (Some dlg_blob)
     \<and> st' ''font_name'' = Some (font_name s)
     \<and> st' ''font_size'' = Some (show_int (font_size s))
     \<and> st' ''font_weight'' = Some (show_int w)
     \<and> st' ''theme_mode'' = Some (theme_mode s)
     \<and> st' ''text_content'' = Some (plain_text ta)
     \<and> st' ''window_geometry'' = Some (geometry_blob win)
     \<and> st' ''window_state'' = Some (state_blob win)
     \<and> st' ''show_debug'' = Some (if show_debug s then ''true'' else ''false'')
     \<and> st' ''always_on_top'' = Some (if always_on_top s then ''true'' else ''false'')
     \<and> st' ''settings_dialog_geometry'' = Some dlg_blob
     \<and> (\<forall>k. k \<notin> set [''font_name'', ''font_size'', ''font_weight'', ''theme_mode'',
                       ''text_content'', ''window_geometry'', ''window_state'', ''show_debug'',
                       ''always_on_top'', ''settings_dialog_geometry''] \<longrightarrow> st' k = st k)"
proof -
  from open_settings_result [OF assms(1)] obtain dlg s1 where
    opened: "open_settings s = Inr (dlg, s1)"
    and f: "theme_mode s1 = theme_mode s" "font_name s1 = font_name s" "font_size s1 = font_size s"
      "font_weight s1 = font_weight s" "always_on_top s1 = always_on_top s"
      "show_debug s1 = show_debug s" "text_content s1 = text_content s"
      "text_area s1 = text_area s"
    by (elim exE conjE)
  have "font_weight s1 = Some w" "text_area s1 = Some ta"
    using f assms by simp_all
  from close_event_result [OF this, of dlg_blob win st] obtain st' where
    "close_event s1 dlg_blob win st =
            Inr (s1\<lparr>settings_dialog_geometry := Some (Some dlg_blob)\<rparr>, st')
     \<and> st' ''font_name'' = Some (font_name s1)
     \<and> st' ''font_size'' = Some (show_int (font_size s1))
     \<and> st' ''font_weight'' = Some (show_int w)
     \<and> st' ''theme_mode'' = Some (theme_mode s1)
     \<and> st' ''text_content'' = Some (plain_text ta)
     \<and> st' ''window_geometry'' = Some (geometry_blob win)
     \<and> st' ''window_state'' = Some (state_blob win)
     \<and> st' ''show_debug'' = Some (if show_debug s1 then ''true'' else ''false'')
     \<and> st' ''always_on_top'' = Some (if always_on_top s1 then ''true'' else ''false'')
     \<and> st' ''settings_dialog_geometry'' = Some dlg_blob
     \<and> (\<forall>k. k \<notin> set [''font_name'', ''font_size'', ''font_weight'', ''theme_mode'',
                       ''text_content'', ''window_geometry'', ''window_state'', ''show_debug'',
                       ''always_on_top'', ''settings_dialog_geometry''] \<longrightarrow> st' k = st k)"
    ..
  then show ?thesis
    using opened f by simp
qed

text \<open>
  Claim C10. Whenever the window has its font weight and its text area, every handler
  that reaches \<open>save_settings_to_file\<close> succeeds and leaves under \<open>text_content\<close> the text
  the editor holds at that moment: the routine itself, the dialog's \<open>close_event\<close>
  (also when reached by opening the dialog, editing it and closing it without saving),
  \<open>handle_debug_console_close\<close>, the main window's \<open>closeEvent\<close> and \<open>save_settings\<close>.
\<close>

theorem every_save_writes_the_live_text:
  assumes "font_weight s = Some w" and "text_area s = Some ta"
  shows "(\<exists>st'. save_settings_to_file s win st = Inr st'
            \<and> st' ''text_content'' = Some (plain_text ta))
     \<and> store_after (close_event s dlg_blob win st) ''text_content'' = Some (plain_text ta)
     \<and> store_after (step (s, st) (SettingsDiscarded edits dlg_blob win)) ''text_content''
           = Some (plain_text ta)
     \<and> store_after (handle_debug_console_close s win st) ''text_content'' = Some (plain_text ta)
     \<and> store_after (closeEvent s win st) ''text_content'' = Some (plain_text ta)
     \<and> store_after (save_settings s dlg dlg_blob win st) ''text_content'' = Some (plain_text ta)"
proof -
  from save_settings_to_file_store [OF assms, of win st]
  have a: "\<exists>st'. save_settings_to_file s win st = Inr st'
            \<and> st' ''text_content'' = Some (plain_text ta)"
    by (elim exE conjE) (intro exI conjI)
  from close_event_result [OF assms, of dlg_blob win st]
  have b: "store_after (close_event s dlg_blob win st) ''text_content'' = Some (plain_text ta)"
    by (elim exE conjE) (simp add: store_after_def)
  from discard_result [OF assms, of st edits dlg_blob win]
  have c: "store_after (step (s, st) (SettingsDiscarded edits dlg_blob win)) ''text_content''
           = Some (plain_text ta)"
    by (elim exE conjE) (simp add: store_after_def)
  from handle_debug_console_close_result [OF assms, of win st]
  have d: "store_after (handle_debug_console_close s win st) ''text_content'' = Some (plain_text ta)"
    by (elim exE conjE) (simp add: store_after_def)
  from closeEvent_result [OF assms, of win st]
  have e: "store_after (closeEvent s win st) ''text_content'' = Some (plain_text ta)"
    by (elim exE conjE) (simp add: store_after_def)
  from save_settings_result [OF assms(2), of dlg dlg_blob win st]
  have f: "store_after (save_settings s dlg dlg_blob win st) ''text_content'' = Some (plain_text ta)"
    by (elim exE conjE) (simp add: store_after_def)
  from a b c d e f show ?thesis by (intro conjI)
qed

theorem every_save_writes_the_live_text_witness:
  "(\<exists>st'. save_settings_to_file
            (default_app\<lparr>font_weight := Some 400,
                         text_area := Some \<lparr>plain_text = ''draft'', te_font = None\<rparr>\<rparr>)
            \<lparr>geometry_blob = ''g'', state_blob = ''w''\<rparr> (map_of []) = Inr st'
            \<and> st' ''text_content'' = Some ''draft'')
   \<and> store_after (close_event
            (default_app\<lparr>font_weight := Some 400,
                         text_area := Some \<lparr>plain_text = ''draft'', te_font = None\<rparr>\<rparr>)
            ''G'' \<lparr>geometry_blob = ''g'', state_blob = ''w''\<rparr> (map_of [])) ''text_content''
         = Some ''draft''
   \<and> store_after (handle_debug_console_close
            (default_app\<lparr>font_weight := Some 400,
                         text_area := Some \<lparr>plain_text = ''draft'', te_font = None\<rparr>\<rparr>)
            \<lparr>geometry_blob = ''g'', state_blob = ''w''\<rparr> (map_of [])) ''text_content''
         = Some ''draft''"
  using every_save_writes_the_live_text
    [of "default_app\<lparr>font_weight := Some 400,
                      text_area := Some \<lparr>plain_text = ''draft'', te_font = None\<rparr>\<rparr>"
        400 "\<lparr>plain_text = ''draft'', te_font = None\<rparr>"
        "\<lparr>geometry_blob = ''g'', state_blob = ''w''\<rparr>" "map_of []" "''G''"]
  by (simp add: default_app_def)

text \<open>
  Claim C7, as the code has it. Opening the settings dialog, editing it in any way and
  closing it without "Save Settings" succeeds whenever the window has its font weight and
  its text area, and leaves the window's theme, font family, font size, font weight,
  always-on-top flag, debug flag and text content as they were before the dialog was
  opened; the edits are not taken over. It does write the store, though, and more than
  the dialog's geometry: \<open>save_settings_to_file\<close> runs, so the store gets the dialog's
  geometry, the unchanged six values of the window, the text the editor holds and the
  main window's geometry and state; every other key is left alone.
\<close>

theorem discard_keeps_configuration_and_saves_everything:
  assumes "font_weight s = Some w" and "text_area s = Some ta"
  shows "\<exists>s' st'. step (s, st) (SettingsDiscarded edits dlg_blob win) = Inr (s', st')
     \<and> configuration s' = configuration s
     \<and> text_content s' = text_content s \<and> text_area s' = text_area s
     \<and> settings_dialog_geometry s' = Some (Some dlg_blob)
     \<and> st' ''settings_dialog_geometry'' = Some dlg_blob
     \<and> st' ''theme_mode'' = Some (theme_mode s)
     \<and> st' ''font_name'' = Some (font_name s)
     \<and> st' ''font_size'' = Some (show_int (font_size s))
     \<and> st' ''font_weight'' = Some (show_int w)
     \<and> st' ''always_on_top'' = Some (if always_on_top s then ''true'' else ''false'')
     \<and> st' ''show_debug'' = Some (if show_debug s then ''true'' else ''false'')
     \<and> st' ''text_content'' = Some (plain_text ta)
     \<and> st' ''window_geometry'' = Some (geometry_blob win)
     \<and> st' ''window_state'' = Some (state_blob win)
     \<and> (\<forall>k. k \<notin> set [''font_name'', ''font_size'', ''font_weight'', ''theme_mode'',
                       ''text_content'', ''window_geometry'', ''window_state'', ''show_debug'',
                       ''always_on_top'', ''settings_dialog_geometry''] \<longrightarrow> st' k = st k)"
  using discard_result [OF assms, of st edits dlg_blob win]
  by (elim exE conjE, intro exI) (simp add: configuration_def)

theorem discard_keeps_configuration_and_saves_everything_witness:
  "field_after configuration
     (window_after
        (step (default_app\<lparr>font_weight := Some 400,
                           text_area := Some \<lparr>plain_text = ''draft'', te_font = None\<rparr>\<rparr>,
               map_of [(''theme_mode'', ''Light''), (''note'', ''kept'')])
           (SettingsDiscarded [CheckLight, SetFontSize 30] ''G''
              \<lparr>geometry_blob = ''g'', state_blob = ''w''\<rparr>)))
     = Some (''Dark'', ''Arial'', 16, Some 400, False, False)
   \<and> store_after
        (step (default_app\<lparr>font_weight := Some 400,
                           text_area := Some \<lparr>plain_text = ''draft'', te_font = None\<rparr>\<rparr>,
               map_of [(''theme_mode'', ''Light''), (''note'', ''kept'')])
           (SettingsDiscarded [CheckLight, SetFontSize 30] ''G''
              \<lparr>geometry_blob = ''g'', state_blob = ''w''\<rparr>)) ''theme_mode''
     = Some ''Dark''
   \<and> store_after
        (step (default_app\<lparr>font_weight := Some 400,
                           text_area := Some \<lparr>plain_text = ''draft'', te_font = None\<rparr>\<rparr>,
               map_of [(''theme_mode'', ''Light''), (''note'', ''kept'')])
           (SettingsDiscarded [CheckLight, SetFontSize 30] ''G''
              \<lparr>geometry_blob = ''g'', state_blob = ''w''\<rparr>)) ''text_content''
     = Some ''draft''
   \<and> store_after
        (step (default_app\<lparr>font_weight := Some 400,
                           text_area := Some \<lparr>plain_text = ''draft'', te_font = None\<rparr>\<rparr>,
               map_of [(''theme_mode'', ''Light''), (''note'', ''kept'')])
           (SettingsDiscarded [CheckLight, SetFontSize 30] ''G''
              \<lparr>geometry_blob = ''g'', state_blob = ''w''\<rparr>)) ''note''
     = Some ''kept''"
proof -
  define S where "S = default_app\<lparr>font_weight := Some 400,
                           text_area := Some \<lparr>plain_text = ''draft'', te_font = None\<rparr>\<rparr>"
  define R where "R = step (S, map_of [(''theme_mode'', ''Light''), (''note'', ''kept'')])
           (SettingsDiscarded [CheckLight, SetFontSize 30] ''G''
              \<lparr>geometry_blob = ''g'', state_blob = ''w''\<rparr>)"
  have "font_weight S = Some 400" "text_area S = Some \<lparr>plain_text = ''draft'', te_font = None\<rparr>"
    by (simp_all add: S_def default_app_def)
  from discard_keeps_configuration_and_saves_everything
    [OF this, of "map_of [(''theme_mode'', ''Light''), (''note'', ''kept'')]"
        "[CheckLight, SetFontSize 30]" "''G''" "\<lparr>geometry_blob = ''g'', state_blob = ''w''\<rparr>"]
  obtain s' st' where r: "R = Inr (s', st')"
    and c: "configuration s' = configuration S"
    and k: "st' ''theme_mode'' = Some (theme_mode S)"
      "st' ''text_content'' = Some (plain_text \<lparr>plain_text = ''draft'', te_font = None\<rparr>)"
    and other: "\<forall>k. k \<notin> set [''font_name'', ''font_size'', ''font_weight'', ''theme_mode'',
                       ''text_content'', ''window_geometry'', ''window_state'', ''show_debug'',
                       ''always_on_top'', ''settings_dialog_geometry''] \<longrightarrow>
                  st' k = map_of [(''theme_mode'', ''Light''), (''note'', ''kept'')] k"
    unfolding R_def by (elim exE conjE)
  have "st' ''note'' = Some ''kept''"
    using other by simp
  moreover have "configuration S = (''Dark'', ''Arial'', 16, Some 400, False, False)"
    by (simp add: S_def default_app_def configuration_def)
  ultimately have "field_after configuration (window_after R) =
        Some (''Dark'', ''Arial'', 16, Some 400, False, False)
     \<and> store_after R ''theme_mode'' = Some ''Dark''
     \<and> store_after R ''text_content'' = Some ''draft''
     \<and> store_after R ''note'' = Some ''kept''"
    using r c k by (simp add: field_after_def window_after_def store_after_def S_def default_app_def)
  then show ?thesis
    unfolding R_def S_def .
qed

text \<open>
  Claim C7 as the specification words it fails: closing the dialog does not persist the
  dialog's geometry only. On a first start with \<open>hello\<close> typed, the store holds nothing;
  after the dialog is opened and closed without saving it holds the editor's text, the
  main window's geometry and the font family as well.
\<close>

theorem discard_persists_more_than_dialog_geometry:
  "store_after (running None (map_of []) [TextEdited ''hello'']) ''text_content'' = None
   \<and> store_after (running None (map_of []) [TextEdited ''hello'']) ''window_geometry'' = None
   \<and> store_after (running None (map_of []) [TextEdited ''hello'']) ''font_name'' = None
   \<and> store_after (running None (map_of [])
         [TextEdited ''hello'',
          SettingsDiscarded [] ''G'' \<lparr>geometry_blob = ''g'', state_blob = ''w''\<rparr>]) ''text_content''
       = Some ''hello''
   \<and> store_after (running None (map_of [])
         [TextEdited ''hello'',
          SettingsDiscarded [] ''G'' \<lparr>geometry_blob = ''g'', state_blob = ''w''\<rparr>]) ''window_geometry''
       = Some ''g''
   \<and> store_after (running None (map_of [])
         [TextEdited ''hello'',
          SettingsDiscarded [] ''G'' \<lparr>geometry_blob = ''g'', state_blob = ''w''\<rparr>]) ''font_name''
       = Some ''Arial''"
  by (simp add: running_def init_empty_store open_settings_def close_event_def
      save_settings_to_file_def setValue_def Let_def store_after_def)

text \<open>
  Claim C6. \<open>save_settings_to_file\<close> hands \<open>show_debug\<close> and \<open>always_on_top\<close> to the store as
  Python booleans (lines 701-702), and the store, as the specification describes it, keeps
  them as the text \<open>true\<close> or \<open>false\<close>. \<open>load_settings\<close> decodes that text by comparing
  it with \<open>true\<close> (lines 714 and 717): whenever it succeeds, each flag is on exactly when
  the store holds the text \<open>true\<close> under its key.
\<close>

theorem booleans_are_stored_and_read_as_text:
  assumes "font_weight s = Some w" and "text_area s = Some ta"
    and "int_or_absent st0 ''font_size''" and "int_or_absent st0 ''font_weight''"
  shows "(\<exists>st'. save_settings_to_file s win st = Inr st'
            \<and> st' ''show_debug'' = Some (if show_debug s then ''true'' else ''false'')
            \<and> st' ''always_on_top'' = Some (if always_on_top s then ''true'' else ''false''))
     \<and> (\<exists>s'. load_settings s0 st0 = Inr s'
            \<and> show_debug s' = (st0 ''show_debug'' = Some ''true'')
            \<and> always_on_top s' = (st0 ''always_on_top'' = Some ''true''))"
proof -
  from save_settings_to_file_store [OF assms(1,2), of win st]
  have a: "\<exists>st'. save_settings_to_file s win st = Inr st'
            \<and> st' ''show_debug'' = Some (if show_debug s then ''true'' else ''false'')
            \<and> st' ''always_on_top'' = Some (if always_on_top s then ''true'' else ''false'')"
    by (elim exE conjE) (intro exI conjI)
  from int_or_absent_read [OF assms(3), of 16] obtain n where
    n: "py_int (QSettings_value st0 ''font_size'' (PyInt 16)) = Inr n"
    by auto
  from int_or_absent_read [OF assms(4), of QFont_Weight_Normal] obtain m where
    m: "py_int (QSettings_value st0 ''font_weight'' (PyInt QFont_Weight_Normal)) = Inr m"
    by auto
  from load_settings_result [OF n m, of s0]
  have b: "\<exists>s'. load_settings s0 st0 = Inr s'
            \<and> show_debug s' = (st0 ''show_debug'' = Some ''true'')
            \<and> always_on_top s' = (st0 ''always_on_top'' = Some ''true'')"
    by (elim exE conjE) (intro exI conjI)
  from a b show ?thesis ..
qed

theorem booleans_are_stored_and_read_as_text_witness:
  "(\<exists>st'. save_settings_to_file
            (default_app\<lparr>font_weight := Some 400, show_debug := True,
                         text_area := Some \<lparr>plain_text = [], te_font = None\<rparr>\<rparr>)
            \<lparr>geometry_blob = ''g'', state_blob = ''w''\<rparr> (map_of []) = Inr st'
            \<and> st' ''show_debug'' = Some ''true''
            \<and> st' ''always_on_top'' = Some ''false'')
   \<and> (\<exists>s'. load_settings default_app
            (map_of [(''show_debug'', ''True''), (''always_on_top'', ''true'')]) = Inr s'
            \<and> show_debug s' = False
            \<and> always_on_top s' = True)"
  using booleans_are_stored_and_read_as_text
    [of "default_app\<lparr>font_weight := Some 400, show_debug := True,
                      text_area := Some \<lparr>plain_text = [], te_font = None\<rparr>\<rparr>"
        400 "\<lparr>plain_text = [], te_font = None\<rparr>"
        "map_of [(''show_debug'', ''True''), (''always_on_top'', ''true'')]"
        "\<lparr>geometry_blob = ''g'', state_blob = ''w''\<rparr>" "map_of []" default_app]
  by (simp add: default_app_def int_or_absent_def)

subsection \<open>The size spin box\<close>

lemma apply_edit_spin:
  assumes "minimum (size_spin dlg) = 8" and "maximum (size_spin dlg) = 72"
    and "font_size_in_range (spin_value (size_spin dlg))"
  shows "minimum (size_spin (apply_edit dlg e)) = 8 \<and> maximum (size_spin (apply_edit dlg e)) = 72
     \<and> font_size_in_range (spin_value (size_spin (apply_edit dlg e)))"
  using assms
  by (cases e) (simp_all add: update_preview_def QSpinBox_setValue_def font_size_in_range_def)

lemma foldl_apply_edit_spin:
  assumes "minimum (size_spin dlg) = 8" and "maximum (size_spin dlg) = 72"
    and "font_size_in_range (spin_value (size_spin dlg))"
  shows "minimum (size_spin (foldl apply_edit dlg edits)) = 8
     \<and> maximum (size_spin (foldl apply_edit dlg edits)) = 72
     \<and> font_size_in_range (spin_value (size_spin (foldl apply_edit dlg edits)))"
  using assms
proof (induction edits arbitrary: dlg)
  case Nil
  then show ?case by simp
next
  case (Cons e edits)
  from apply_edit_spin [OF Cons.prems, of e]
  have "minimum (size_spin (apply_edit dlg e)) = 8" "maximum (size_spin (apply_edit dlg e)) = 72"
    "font_size_in_range (spin_value (size_spin (apply_edit dlg e)))"
    by simp_all
  from Cons.IH [OF this] show ?case by simp
qed

lemma apply_edit_theme:
  assumes "theme_checked_id dlg = 1 \<or> theme_checked_id dlg = 2"
  shows "theme_checked_id (apply_edit dlg e) = 1 \<or> theme_checked_id (apply_edit dlg e) = 2"
  using assms by (cases e) (simp_all add: update_preview_def)

lemma step_result:
  assumes "font_weight s = Some w" and "text_area s = Some ta"
  shows "\<exists>s' st'. step (s, st) ev = Inr (s', st') \<and> window_ready s'
     \<and> (valid_theme (theme_mode s) \<longrightarrow> valid_theme (theme_mode s'))
     \<and> (font_size_in_range (font_size s) \<longrightarrow> font_size_in_range (font_size s'))
     \<and> (st' ''font_size'' = st ''font_size''
          \<or> st' ''font_size'' = Some (show_int (font_size s')))
     \<and> (st' ''theme_mode'' = st ''theme_mode''
          \<or> st' ''theme_mode'' = Some (theme_mode s'))"
proof (cases ev)
  case (TextEdited t)
  then show ?thesis
    using assms by (simp add: window_ready_def)
next
  case (SettingsSaved edits dlg_blob win)
  from open_settings_result [OF assms(1)] obtain dlg s1 where
    opened: "open_settings s = Inr (dlg, s1)"
    and ta1: "text_area s1 = text_area s"
    and spin: "minimum (size_spin dlg) = 8" "maximum (size_spin dlg) = 72"
      "spin_value (size_spin dlg) = max 8 (min 72 (font_size s))"
    by (elim exE conjE)
  have "font_size_in_range (spin_value (size_spin dlg))"
    using spin(3) by (simp add: font_size_in_range_def)
  from foldl_apply_edit_spin [OF spin(1,2) this, of edits]
  have range: "font_size_in_range (spin_value (size_spin (foldl apply_edit dlg edits)))"
    by simp
  have "text_area s1 = Some ta"
    using ta1 assms(2) by simp
  from save_button_clicked_result [OF this, of "foldl apply_edit dlg edits" dlg_blob win st]
  obtain s' st' where
    "save_button_clicked s1 (foldl apply_edit dlg edits) dlg_blob win st = Inr (s', st')"
    "theme_mode s' = (if theme_checked_id (foldl apply_edit dlg edits) = 2 then ''Light'' else ''Dark'')"
    "font_size s' = spin_value (size_spin (foldl apply_edit dlg edits))"
    "font_weight s' = Some (weight_combo (foldl apply_edit dlg edits))"
    "text_area s' = Some (ta\<lparr>te_font := Some \<lparr>family = font_combo (foldl apply_edit dlg edits),
                         point_size = spin_value (size_spin (foldl apply_edit dlg edits)),
                         weight = Some (weight_combo (foldl apply_edit dlg edits))\<rparr>\<rparr>)"
    "st' ''font_size'' = Some (show_int (spin_value (size_spin (foldl apply_edit dlg edits))))"
    "st' ''theme_mode'' =
       Some (if theme_checked_id (foldl apply_edit dlg edits) = 2 then ''Light'' else ''Dark'')"
    by (elim exE conjE)
  then show ?thesis
    using SettingsSaved opened range
    by (simp add: window_ready_def valid_theme_def)
next
  case (SettingsDiscarded edits dlg_blob win)
  from discard_result [OF assms, of st edits dlg_blob win] obtain s' st' where
    "step (s, st) (SettingsDiscarded edits dlg_blob win) = Inr (s', st')"
    "theme_mode s' = theme_mode s" "font_size s' = font_size s"
    "font_weight s' = font_weight s" "text_area s' = text_area s"
    "st' ''font_size'' = Some (show_int (font_size s))"
    "st' ''theme_mode'' = Some (theme_mode s)"
    by (elim exE conjE)
  then show ?thesis
    using SettingsDiscarded assms by (simp add: window_ready_def)
next
  case (DebugConsoleClosed win)
  from handle_debug_console_close_result [OF assms, of win st] obtain st' where
    "handle_debug_console_close s win st = Inr (s\<lparr>show_debug := False\<rparr>, st')"
    "st' ''font_size'' = Some (show_int (font_size s))"
    "st' ''theme_mode'' = Some (theme_mode s)"
    by (elim exE conjE)
  then show ?thesis
    using DebugConsoleClosed assms by (cases "debug_dock s") (simp_all add: window_ready_def)
qed

lemma stored_font_size_ok_same:
  "st' ''font_size'' = st ''font_size'' \<Longrightarrow> stored_font_size_ok st' = stored_font_size_ok st"
  by (simp add: stored_font_size_ok_def)

lemma stored_font_size_ok_written:
  "st' ''font_size'' = Some (show_int n) \<Longrightarrow> stored_font_size_ok st' = font_size_in_range n"
  by (simp add: stored_font_size_ok_def py_int_str_show_int)

lemma window_ready_fields:
  assumes "window_ready s"
  obtains w ta where "font_weight s = Some w" and "text_area s = Some ta"
  using assms by (cases "font_weight s"; cases "text_area s") (simp_all add: window_ready_def)

lemma run_result:
  assumes "window_ready s" and "valid_theme (theme_mode s)"
  shows "\<exists>s' st'. run (s, st) evs = Inr (s', st') \<and> window_ready s'
     \<and> valid_theme (theme_mode s')
     \<and> (st' ''theme_mode'' = st ''theme_mode''
          \<or> (\<exists>t. st' ''theme_mode'' = Some t \<and> valid_theme t))
     \<and> (font_size_in_range (font_size s) \<and> stored_font_size_ok st \<longrightarrow>
          font_size_in_range (font_size s') \<and> stored_font_size_ok st')"
  using assms
proof (induction evs arbitrary: s st)
  case Nil
  then show ?case by simp
next
  case (Cons ev evs)
  from Cons.prems(1) obtain w ta where "font_weight s = Some w" and "text_area s = Some ta"
    by (rule window_ready_fields)
  from step_result [OF this, of st ev] obtain s1 st1 where
    step: "step (s, st) ev = Inr (s1, st1)" and ready: "window_ready s1"
    and theme: "valid_theme (theme_mode s) \<longrightarrow> valid_theme (theme_mode s1)"
    and size: "font_size_in_range (font_size s) \<longrightarrow> font_size_in_range (font_size s1)"
    and stored: "st1 ''font_size'' = st ''font_size''
          \<or> st1 ''font_size'' = Some (show_int (font_size s1))"
    and stored_theme: "st1 ''theme_mode'' = st ''theme_mode''
          \<or> st1 ''theme_mode'' = Some (theme_mode s1)"
    by (elim exE conjE)
  have valid1: "valid_theme (theme_mode s1)"
    using theme Cons.prems(2) by simp
  from Cons.IH [OF ready valid1, of st1] obtain s' st' where
    rest: "run (s1, st1) evs = Inr (s', st')" and ready': "window_ready s'"
    and valid': "valid_theme (theme_mode s')"
    and stored_theme': "st' ''theme_mode'' = st1 ''theme_mode''
          \<or> (\<exists>t. st' ''theme_mode'' = Some t \<and> valid_theme t)"
    and size': "font_size_in_range (font_size s1) \<and> stored_font_size_ok st1 \<longrightarrow>
          font_size_in_range (font_size s') \<and> stored_font_size_ok st'"
    by (elim exE conjE)
  have a: "run (s, st) (ev # evs) = Inr (s', st')"
    using step rest by simp
  have b: "st' ''theme_mode'' = st ''theme_mode''
          \<or> (\<exists>t. st' ''theme_mode'' = Some t \<and> valid_theme t)"
    using stored_theme stored_theme' valid1 by auto
  have c: "font_size_in_range (font_size s) \<and> stored_font_size_ok st \<longrightarrow>
          font_size_in_range (font_size s') \<and> stored_font_size_ok st'"
  proof
    assume h: "font_size_in_range (font_size s) \<and> stored_font_size_ok st"
    then have r1: "font_size_in_range (font_size s1)"
      using size by simp
    from stored have "stored_font_size_ok st1"
    proof
      assume "st1 ''font_size'' = st ''font_size''"
      then have "stored_font_size_ok st1 = stored_font_size_ok st"
        by (rule stored_font_size_ok_same)
      then show ?thesis
        using h by simp
    next
      assume "st1 ''font_size'' = Some (show_int (font_size s1))"
      then have "stored_font_size_ok st1 = font_size_in_range (font_size s1)"
        by (rule stored_font_size_ok_written)
      then show ?thesis
        using r1 by simp
    qed
    with r1 size' show "font_size_in_range (font_size s') \<and> stored_font_size_ok st'"
      by simp
  qed
  from a ready' valid' b c show ?case
    by (intro exI conjI)
qed

subsection \<open>Whole sessions\<close>

lemma stored_font_size_ok_read:
  assumes "stored_font_size_ok st"
  shows "\<exists>n. py_int (QSettings_value st ''font_size'' (PyInt 16)) = Inr n \<and> font_size_in_range n"
  using assms
  by (auto simp: stored_font_size_ok_def QSettings_value_def font_size_in_range_def
      split: option.splits sum.splits)

lemma startup_result:
  assumes "py_int (QSettings_value st ''font_size'' (PyInt 16)) = Inr n"
    and "int_or_absent st ''font_weight''"
  shows "\<exists>a. init icon_file st = Inr a \<and> window_ready a \<and> font_size a = n
     \<and> theme_mode a = (if st ''theme_mode'' = Some ''Light'' then ''Light'' else ''Dark'')
     \<and> style_sheet a = (if st ''theme_mode'' = Some ''Light'' then LightWindowStyle
                          else DarkWindowStyle)
     \<and> text_area a = Some \<lparr>plain_text = QSettings_value_str st ''text_content'' [],
                             te_font = Some \<lparr>family = QSettings_value_str st ''font_name'' ''Arial'',
                                              point_size = n,
                                              weight = font_weight a\<rparr>\<rparr>"
proof -
  from int_or_absent_read [OF assms(2), of QFont_Weight_Normal] obtain w where
    w: "py_int (QSettings_value st ''font_weight'' (PyInt QFont_Weight_Normal)) = Inr w"
    by auto
  from load_settings_result [OF assms(1) w, of default_app] obtain s1 where
    s1: "load_settings default_app st = Inr s1"
    and f1: "font_name s1 = QSettings_value_str st ''font_name'' ''Arial''"
      "font_size s1 = n" "font_weight s1 = Some w"
      "theme_mode s1 = QSettings_value_str st ''theme_mode'' ''Dark''"
      "text_content s1 = QSettings_value_str st ''text_content'' []"
    by (elim exE conjE)
  from init_result [OF s1, of icon_file] obtain a where
    a: "init icon_file st = Inr a"
    and fa: "theme_mode a = (if valid_theme (theme_mode s1) then theme_mode s1 else ''Dark'')"
      "font_size a = font_size s1" "font_weight a = font_weight s1"
      "text_area a = Some \<lparr>plain_text = text_content s1,
                             te_font = Some \<lparr>family = font_name s1, point_size = font_size s1,
                                              weight = font_weight s1\<rparr>\<rparr>"
      "style_sheet a = (if theme_mode s1 = ''Light'' then LightWindowStyle else DarkWindowStyle)"
    by (elim exE conjE)
  have theme1: "theme_mode s1 = ''Light'' \<longleftrightarrow> st ''theme_mode'' = Some ''Light''"
    using f1(4) by (cases "st ''theme_mode''") (simp_all add: QSettings_value_str_def)
  have "theme_mode a = (if st ''theme_mode'' = Some ''Light'' then ''Light'' else ''Dark'')"
    using fa(1) theme1 by (auto simp: valid_theme_def)
  moreover have "window_ready a"
    using fa(3,4) f1(3) by (simp add: window_ready_def)
  ultimately show ?thesis
    using a fa f1 theme1 by simp
qed

text \<open>
  Claim C3. On every store from which start-up succeeds (\<open>font_size\<close> and \<open>font_weight\<close>
  absent or readable by \<open>int()\<close>), start-up ends with \<open>theme_mode\<close> Light and the Light
  style sheet if the store holds \<open>Light\<close>, and with Dark and the Dark style sheet
  otherwise, whether the store holds \<open>Dark\<close>, nothing, \<open>Purple\<close> or any other text. After
  any sequence of events (typing, saving or discarding the settings dialog with any
  edits, closing the debug console) the window exists and its \<open>theme_mode\<close> is Dark or
  Light; the theme in the store is then the one found at start-up or a valid one; and
  when the main window is closed the store holds the window's valid theme.
\<close>

theorem theme_is_always_dark_or_light:
  assumes "int_or_absent st ''font_size''" and "int_or_absent st ''font_weight''"
  shows "\<exists>a s st' c st''. init icon_file st = Inr a
     \<and> theme_mode a = (if st ''theme_mode'' = Some ''Light'' then ''Light'' else ''Dark'')
     \<and> style_sheet a = (if st ''theme_mode'' = Some ''Light'' then LightWindowStyle
                          else DarkWindowStyle)
     \<and> running icon_file st evs = Inr (s, st') \<and> valid_theme (theme_mode s)
     \<and> (st' ''theme_mode'' = st ''theme_mode''
          \<or> (\<exists>t. st' ''theme_mode'' = Some t \<and> valid_theme t))
     \<and> session icon_file st evs win = Inr (c, st'') \<and> valid_theme (theme_mode c)
     \<and> st'' ''theme_mode'' = Some (theme_mode c)"
proof -
  from int_or_absent_read [OF assms(1), of 16] obtain n where
    n: "py_int (QSettings_value st ''font_size'' (PyInt 16)) = Inr n"
    by auto
  from startup_result [OF n assms(2), of icon_file] obtain a where
    a: "init icon_file st = Inr a" and ready: "window_ready a"
    and theme: "theme_mode a = (if st ''theme_mode'' = Some ''Light'' then ''Light'' else ''Dark'')"
    and style: "style_sheet a = (if st ''theme_mode'' = Some ''Light'' then LightWindowStyle
                          else DarkWindowStyle)"
    by (elim exE conjE)
  have valid: "valid_theme (theme_mode a)"
    using theme by (simp add: valid_theme_def)
  from run_result [OF ready valid, of st evs] obtain s st' where
    r: "run (a, st) evs = Inr (s, st')" and ready': "window_ready s"
    and valid': "valid_theme (theme_mode s)"
    and stored: "st' ''theme_mode'' = st ''theme_mode''
          \<or> (\<exists>t. st' ''theme_mode'' = Some t \<and> valid_theme t)"
    by (elim exE conjE)
  from ready' obtain w ta where "font_weight s = Some w" and ta: "text_area s = Some ta"
    by (rule window_ready_fields)
  from closeEvent_result [OF this, of win st'] obtain st'' where
    c: "closeEvent s win st' = Inr (s\<lparr>text_content := plain_text ta\<rparr>, st'')"
    and saved: "st'' ''theme_mode'' = Some (theme_mode s)"
    by (elim exE conjE)
  have "running icon_file st evs = Inr (s, st')"
    using a r by (simp add: running_def)
  moreover have "session icon_file st evs win = Inr (s\<lparr>text_content := plain_text ta\<rparr>, st'')"
    using a r c by (simp add: session_def)
  moreover have "valid_theme (theme_mode (s\<lparr>text_content := plain_text ta\<rparr>))"
    "st'' ''theme_mode'' = Some (theme_mode (s\<lparr>text_content := plain_text ta\<rparr>))"
    using valid' saved by simp_all
  ultimately show ?thesis
    using a theme style valid' stored by (intro exI conjI)
qed

theorem theme_is_always_dark_or_light_witness:
  "int_or_absent (map_of [(''theme_mode'', ''Purple'')]) ''font_size''
   \<and> int_or_absent (map_of [(''theme_mode'', ''Purple'')]) ''font_weight''
   \<and> (\<exists>a s st' c st''. init None (map_of [(''theme_mode'', ''Purple'')]) = Inr a
     \<and> theme_mode a = ''Dark''
     \<and> style_sheet a = DarkWindowStyle
     \<and> running None (map_of [(''theme_mode'', ''Purple'')])
          [SettingsSaved [CheckLight] ''G'' \<lparr>geometry_blob = ''g'', state_blob = ''w''\<rparr>]
          = Inr (s, st')
     \<and> valid_theme (theme_mode s)
     \<and> (st' ''theme_mode'' = Some ''Purple''
          \<or> (\<exists>t. st' ''theme_mode'' = Some t \<and> valid_theme t))
     \<and> session None (map_of [(''theme_mode'', ''Purple'')])
          [SettingsSaved [CheckLight] ''G'' \<lparr>geometry_blob = ''g'', state_blob = ''w''\<rparr>]
          \<lparr>geometry_blob = ''g'', state_blob = ''w''\<rparr> = Inr (c, st'')
     \<and> valid_theme (theme_mode c)
     \<and> st'' ''theme_mode'' = Some (theme_mode c))"
  using theme_is_always_dark_or_light
    [of "map_of [(''theme_mode'', ''Purple'')]" None
        "[SettingsSaved [CheckLight] ''G'' \<lparr>geometry_blob = ''g'', state_blob = ''w''\<rparr>]"
        "\<lparr>geometry_blob = ''g'', state_blob = ''w''\<rparr>"]
  by (simp add: int_or_absent_def)

subsection \<open>The font size\<close>

lemma save_clamps_font_size:
  assumes "font_weight s = Some w" and "text_area s = Some ta"
  shows "\<exists>s2 st2 ta2 f. step (s, st) (SettingsSaved [SetFontSize v] dlg_blob win) = Inr (s2, st2)
     \<and> font_size s2 = max 8 (min 72 v)
     \<and> text_area s2 = Some ta2 \<and> te_font ta2 = Some f \<and> point_size f = max 8 (min 72 v)
     \<and> st2 ''font_size'' = Some (show_int (max 8 (min 72 v)))"
proof -
  from open_settings_result [OF assms(1)] obtain dlg s1 where
    opened: "open_settings s = Inr (dlg, s1)"
    and ta1: "text_area s1 = text_area s"
    and spin: "minimum (size_spin dlg) = 8" "maximum (size_spin dlg) = 72"
    by (elim exE conjE)
  define dlg' where "dlg' = foldl apply_edit dlg [SetFontSize v]"
  have v: "spin_value (size_spin dlg') = max 8 (min 72 v)"
    using spin by (simp add: dlg'_def update_preview_def QSpinBox_setValue_def)
  have "text_area s1 = Some ta"
    using ta1 assms(2) by simp
  from save_button_clicked_result [OF this, of dlg' dlg_blob win st] obtain s2 st2 where
    r: "save_button_clicked s1 dlg' dlg_blob win st = Inr (s2, st2)"
    and f: "font_size s2 = spin_value (size_spin dlg')"
      "text_area s2 = Some (ta\<lparr>te_font := Some \<lparr>family = font_combo dlg',
                                                  point_size = spin_value (size_spin dlg'),
                                                  weight = Some (weight_combo dlg')\<rparr>\<rparr>)"
      "st2 ''font_size'' = Some (show_int (spin_value (size_spin dlg')))"
    by (elim exE conjE)
  define f where "f = \<lparr>family = font_combo dlg', point_size = spin_value (size_spin dlg'),
                        weight = Some (weight_combo dlg')\<rparr>"
  have "step (s, st) (SettingsSaved [SetFontSize v] dlg_blob win) = Inr (s2, st2)"
    using opened r by (simp add: dlg'_def)
  moreover have "text_area s2 = Some (ta\<lparr>te_font := Some f\<rparr>)"
    using f(2) by (simp add: f_def)
  moreover have "te_font (ta\<lparr>te_font := Some f\<rparr>) = Some f"
    by simp
  moreover have "point_size f = max 8 (min 72 v)"
    using v by (simp add: f_def)
  moreover have "font_size s2 = max 8 (min 72 v)"
    "st2 ''font_size'' = Some (show_int (max 8 (min 72 v)))"
    using f(1,3) v by simp_all
  ultimately have "step (s, st) (SettingsSaved [SetFontSize v] dlg_blob win) = Inr (s2, st2)
     \<and> font_size s2 = max 8 (min 72 v)
     \<and> text_area s2 = Some (ta\<lparr>te_font := Some f\<rparr>)
     \<and> te_font (ta\<lparr>te_font := Some f\<rparr>) = Some f \<and> point_size f = max 8 (min 72 v)
     \<and> st2 ''font_size'' = Some (show_int (max 8 (min 72 v)))"
    by (intro conjI)
  then show ?thesis
    by (intro exI)
qed

text \<open>
  Claim C5, as the code has it. The size spin box of the settings dialog clamps: saving
  the dialog with a size \<open>v\<close> entered sets \<open>font_size\<close>, the font of the text area and the
  stored \<open>font_size\<close> to \<open>v\<close> brought into 8..72, so 7 gives 8 and 73 gives 72.
  \<open>load_settings\<close> does not clamp. So \<open>font_size\<close> is within 8..72 in every state a
  session reaches provided the store found at start-up holds no \<open>font_size\<close> or one that
  reads as a number within 8..72 (and a \<open>font_weight\<close> that can be read at all); the
  store then keeps such a \<open>font_size\<close>.
\<close>

theorem font_size_stays_in_range_from_a_store_in_range:
  assumes "stored_font_size_ok st" and "int_or_absent st ''font_weight''"
  shows "\<exists>s st'. running icon_file st evs = Inr (s, st')
     \<and> font_size_in_range (font_size s) \<and> stored_font_size_ok st'
     \<and> (\<exists>s2 st2 ta2 f.
            step (s, st') (SettingsSaved [SetFontSize v] dlg_blob win) = Inr (s2, st2)
            \<and> font_size s2 = max 8 (min 72 v)
            \<and> text_area s2 = Some ta2 \<and> te_font ta2 = Some f \<and> point_size f = max 8 (min 72 v)
            \<and> st2 ''font_size'' = Some (show_int (max 8 (min 72 v))))"
proof -
  from stored_font_size_ok_read [OF assms(1)] obtain n where
    n: "py_int (QSettings_value st ''font_size'' (PyInt 16)) = Inr n"
    and range: "font_size_in_range n"
    by (elim exE conjE)
  from startup_result [OF n assms(2), of icon_file] obtain a where
    a: "init icon_file st = Inr a" and ready: "window_ready a" and size: "font_size a = n"
    and theme: "theme_mode a = (if st ''theme_mode'' = Some ''Light'' then ''Light'' else ''Dark'')"
    by (elim exE conjE)
  have valid: "valid_theme (theme_mode a)"
    using theme by (simp add: valid_theme_def)
  from run_result [OF ready valid, of st evs] obtain s st' where
    r: "run (a, st) evs = Inr (s, st')" and ready': "window_ready s"
    and keep: "font_size_in_range (font_size a) \<and> stored_font_size_ok st \<longrightarrow>
          font_size_in_range (font_size s) \<and> stored_font_size_ok st'"
    by (elim exE conjE)
  have in_range: "font_size_in_range (font_size s)" "stored_font_size_ok st'"
    using keep range size assms(1) by simp_all
  from ready' obtain w ta where "font_weight s = Some w" and "text_area s = Some ta"
    by (rule window_ready_fields)
  from save_clamps_font_size [OF this, of st' v dlg_blob win]
  have clamp: "\<exists>s2 st2 ta2 f.
            step (s, st') (SettingsSaved [SetFontSize v] dlg_blob win) = Inr (s2, st2)
            \<and> font_size s2 = max 8 (min 72 v)
            \<and> text_area s2 = Some ta2 \<and> te_font ta2 = Some f \<and> point_size f = max 8 (min 72 v)
            \<and> st2 ''font_size'' = Some (show_int (max 8 (min 72 v)))" .
  have "running icon_file st evs = Inr (s, st')"
    using a r by (simp add: running_def)
  with in_range clamp have "running icon_file st evs = Inr (s, st')
     \<and> font_size_in_range (font_size s) \<and> stored_font_size_ok st'
     \<and> (\<exists>s2 st2 ta2 f.
            step (s, st') (SettingsSaved [SetFontSize v] dlg_blob win) = Inr (s2, st2)
            \<and> font_size s2 = max 8 (min 72 v)
            \<and> text_area s2 = Some ta2 \<and> te_font ta2 = Some f \<and> point_size f = max 8 (min 72 v)
            \<and> st2 ''font_size'' = Some (show_int (max 8 (min 72 v))))"
    by simp
  then show ?thesis
    by (intro exI)
qed

theorem font_size_stays_in_range_from_a_store_in_range_witness:
  "stored_font_size_ok (map_of [(''font_name'', ''Courier'')])
   \<and> int_or_absent (map_of [(''font_name'', ''Courier'')]) ''font_weight''
   \<and> (\<exists>s st'. running None (map_of [(''font_name'', ''Courier'')])
          [SettingsSaved [SetFontSize 73] ''G'' \<lparr>geometry_blob = ''g'', state_blob = ''w''\<rparr>]
          = Inr (s, st')
     \<and> font_size_in_range (font_size s) \<and> stored_font_size_ok st'
     \<and> (\<exists>s2 st2 ta2 f.
            step (s, st') (SettingsSaved [SetFontSize 7] ''G''
                             \<lparr>geometry_blob = ''g'', state_blob = ''w''\<rparr>) = Inr (s2, st2)
            \<and> font_size s2 = 8
            \<and> text_area s2 = Some ta2 \<and> te_font ta2 = Some f \<and> point_size f = 8
            \<and> st2 ''font_size'' = Some (show_int 8)))"
  using font_size_stays_in_range_from_a_store_in_range
    [of "map_of [(''font_name'', ''Courier'')]" None
        "[SettingsSaved [SetFontSize 73] ''G'' \<lparr>geometry_blob = ''g'', state_blob = ''w''\<rparr>]"
        7 "''G''" "\<lparr>geometry_blob = ''g'', state_blob = ''w''\<rparr>"]
  by (simp add: stored_font_size_ok_def int_or_absent_def)

text \<open>
  Claim C5 as the specification words it fails: a store whose \<open>font_size\<close> is \<open>100\<close> makes
  start-up end with \<open>font_size\<close> 100, and \<open>apply_font\<close> has given the text area a font of
  that size.
\<close>

theorem font_size_out_of_range_after_load:
  "field_after font_size (init None (map_of [(''font_size'', ''100'')])) = Some 100
   \<and> field_after text_area (init None (map_of [(''font_size'', ''100'')])) =
       Some (Some \<lparr>plain_text = [],
                    te_font = Some \<lparr>family = ''Arial'', point_size = 100,
                                     weight = Some QFont_Weight_Normal\<rparr>\<rparr>)
   \<and> \<not> font_size_in_range 100"
proof -
  have "py_int_str ''100'' = Inr 100"
    by (simp add: py_int_str_def int_strip_def is_space_def unsigned_value_def is_digit_def
        digit_of_char_def)
  then have n: "py_int (QSettings_value (map_of [(''font_size'', ''100'')]) ''font_size'' (PyInt 16))
      = Inr 100"
    by (simp add: QSettings_value_def)
  have "int_or_absent (map_of [(''font_size'', ''100'')]) ''font_weight''"
    by (simp add: int_or_absent_def)
  from startup_result [OF n this, of None] obtain a where
    a: "init None (map_of [(''font_size'', ''100'')]) = Inr a" and "window_ready a"
    and size: "font_size a = 100"
    and "theme_mode a = (if map_of [(''font_size'', ''100'')] ''theme_mode'' = Some ''Light''
                         then ''Light'' else ''Dark'')"
    and "style_sheet a = (if map_of [(''font_size'', ''100'')] ''theme_mode'' = Some ''Light''
                          then LightWindowStyle else DarkWindowStyle)"
    and ta: "text_area a = Some \<lparr>plain_text =
                 QSettings_value_str (map_of [(''font_size'', ''100'')]) ''text_content'' [],
               te_font = Some \<lparr>family =
                 QSettings_value_str (map_of [(''font_size'', ''100'')]) ''font_name'' ''Arial'',
                                point_size = 100, weight = font_weight a\<rparr>\<rparr>"
    by (elim exE conjE)
  have w: "font_weight a = Some QFont_Weight_Normal"
    using a
    by (auto simp: init_def load_settings_def QSettings_value_def Let_def apply_font_def
        setup_ui_def split: sum.splits option.splits)
  show ?thesis
    using a size ta w
    by (simp add: field_after_def QSettings_value_str_def font_size_in_range_def)
qed

end
